theory Spec2Isabelle
  imports Main "HOL-Library.Word"
begin

section \<open>The storage driver\<close>

text \<open>
  \<^verbatim>\<open>db_operator.cc\<close> talks to the storage through the driver adapter
  (\<^verbatim>\<open>SQLite\<close>, \<^verbatim>\<open>SQLiteCommand\<close>, \<^verbatim>\<open>SQLiteDataReader\<close>), which is not among the
  sources. This section models the driver from the interface the specification gives
  it (section 6), as an in-memory relational store.
\<close>

text \<open>
  Modelled from the spec: the values and the tables of the storage. A table has its
  columns, each with its name and the type the \<^verbatim>\<open>CREATE TABLE\<close> statement declares
  for it, the position of its primary key if it has one, and its rows in the order of
  their insertion. A row keeps the values that were bound. A column declared
  \<^verbatim>\<open>TEXT\<close> stores an integer as its decimal text: the row keeps the integer, which
  stands for that text (two integers are equal exactly when their texts are, and the
  integer is what the text reads back as), and \<open>stored\<close> gives the text, by which the
  values of such a column are ordered.
\<close>

datatype sql_value = SqlNull | SqlInt "64 word" | SqlText string | SqlBlob "8 word list"

datatype affinity = INTEGER | TEXT | BLOB

type_synonym row = "sql_value list"

record table =
  columns :: "(string \<times> affinity) list"
  pkey :: "nat option"
  rows :: "row list"

type_synonym database = "string \<rightharpoonup> table"

text \<open>
  The statement texts of \<^verbatim>\<open>db_operator.cc\<close>, one constructor for each form; the
  \<^verbatim>\<open>?\<close> of a statement are its bound parameters, in order. Columns are named by
  their position in the table. \<open>EMPTY\<close> is the empty string,
  \<open>CREATE_TABLE t cols k\<close> is \<^verbatim>\<open>CREATE TABLE t (cols, PRIMARY KEY(k))\<close>, each
  column with its declared type,
  \<open>INSERT_INTO t\<close> is \<^verbatim>\<open>INSERT INTO t(all columns) VALUES(?,...)\<close>,
  \<open>UPDATE_SET t cs w\<close> is \<^verbatim>\<open>UPDATE t SET cs=? WHERE w=?\<close> and
  \<open>DELETE_FROM t w\<close> is \<^verbatim>\<open>DELETE FROM t WHERE w=?\<close>.
\<close>

datatype sql_text =
    EMPTY
  | CREATE_TABLE string "(string \<times> affinity) list" "nat option"
  | INSERT_INTO string
  | UPDATE_SET string "nat list" nat
  | DELETE_FROM string nat

text \<open>
  The queries of \<^verbatim>\<open>db_operator.cc\<close>. \<open>COUNT_TABLES_LIKE n\<close> is
  the count of the rows of \<^verbatim>\<open>sqlite_master\<close> with \<^verbatim>\<open>type='table' AND name LIKE 'n'\<close>,
  \<open>SELECT_WHERE t cols conds\<close> is \<^verbatim>\<open>SELECT cols FROM t WHERE c = 'v' AND ...\<close>,
  with \<open>None\<close> for \<^verbatim>\<open>*\<close>, \<open>SELECT_MAX t c\<close> is \<^verbatim>\<open>SELECT max(c) from t\<close> and
  \<open>SELECT_COUNT t\<close> is the count of the rows of \<^verbatim>\<open>t\<close>.
\<close>

datatype sql_query =
    COUNT_TABLES_LIKE string
  | SELECT_WHERE string "nat list option" "(nat \<times> sql_value) list"
  | SELECT_MAX string nat
  | SELECT_COUNT string

text \<open>
  Modelled from the spec: a call of the driver, with the outcome of a statement or of a
  query; the connection keeps the calls it has received, in order.
\<close>

datatype call =
    BEGIN
  | COMMIT
  | ROLLBACK
  | NON_QUERY sql_text "sql_value list" bool
  | QUERY sql_query bool

text \<open>
  Modelled from the spec: the driver adapter's connection (section 6 of the
  specification; \<^verbatim>\<open>sqlite_wrapper\<close> is not among the sources). \<open>tables\<close> is the
  content of the storage file, \<open>journal\<close> the content saved by an open transaction,
  \<open>refusals\<close> the storage errors to come (the next statement is refused when the head
  is \<open>True\<close>, whatever the statement), \<open>calls\<close> the record of the calls made.
\<close>

record sqlite =
  tables :: database
  journal :: "database option"
  refusals :: "bool list"
  calls :: "call list"

text \<open>
  Modelled from the spec: the value of a column of a row (NULL where the row has no such
  column), the equality of SQL (NULL is equal to nothing), whether the primary key of a
  row is that of a row of the table, and the assignments of an \<^verbatim>\<open>UPDATE\<close>.
\<close>

definition column :: "row \<Rightarrow> nat \<Rightarrow> sql_value" where
  "column r i = (if i < length r then r ! i else SqlNull)"

definition sql_eq :: "sql_value \<Rightarrow> sql_value \<Rightarrow> bool" where
  "sql_eq a b = (a \<noteq> SqlNull \<and> a = b)"

definition key_taken :: "table \<Rightarrow> row \<Rightarrow> bool" where
  "key_taken t r =
     (case pkey t of
        None \<Rightarrow> False
      | Some k \<Rightarrow> list_ex (\<lambda>r'. sql_eq (column r' k) (column r k)) (rows t))"

definition assign :: "nat list \<Rightarrow> sql_value list \<Rightarrow> row \<Rightarrow> row" where
  "assign cs ps r = fold (\<lambda>(c, v) r. r[c := v]) (zip cs ps) r"

text \<open>
  Modelled from the spec: what a statement does to the storage; \<open>None\<close> is the
  statement's failure. The empty statement does nothing and succeeds (section 4.1:
  "a no-op that still reports success"). Creating a table that exists fails, as does
  writing to a table that does not exist or inserting a second row with the primary key
  of another. Foreign keys are not enforced. No \<^verbatim>\<open>UPDATE\<close> of the file assigns a
  key column, so the key is not checked there.
\<close>

fun apply_statement :: "sql_text \<Rightarrow> sql_value list \<Rightarrow> database \<Rightarrow> database option" where
  "apply_statement EMPTY ps db = Some db"
| "apply_statement (CREATE_TABLE n cols pk) ps db =
     (case db n of
        Some t \<Rightarrow> None
      | None \<Rightarrow> Some (db(n \<mapsto> \<lparr>columns = cols, pkey = pk, rows = []\<rparr>)))"
| "apply_statement (INSERT_INTO n) ps db =
     (case db n of
        None \<Rightarrow> None
      | Some t \<Rightarrow>
          if key_taken t ps then None
          else Some (db(n \<mapsto> t\<lparr>rows := rows t @ [ps]\<rparr>)))"
| "apply_statement (UPDATE_SET n cs w) ps db =
     (case db n of
        None \<Rightarrow> None
      | Some t \<Rightarrow>
          Some (db(n \<mapsto> t\<lparr>rows :=
            map (\<lambda>r. if sql_eq (column r w) (column ps (length cs)) then assign cs ps r else r)
              (rows t)\<rparr>)))"
| "apply_statement (DELETE_FROM n w) ps db =
     (case db n of
        None \<Rightarrow> None
      | Some t \<Rightarrow>
          Some (db(n \<mapsto> t\<lparr>rows :=
            filter (\<lambda>r. \<not> sql_eq (column r w) (column ps 0)) (rows t)\<rparr>)))"

text \<open>
  Modelled from the spec: the execution of a statement with its parameters. The
  statement fails, with no effect on the storage, when the storage refuses it or when
  the statement itself fails.
\<close>

definition refused :: "sqlite \<Rightarrow> bool" where
  "refused s = (case refusals s of [] \<Rightarrow> False | b # bs \<Rightarrow> b)"

definition execute :: "sql_text \<Rightarrow> sql_value list \<Rightarrow> sqlite \<Rightarrow> bool \<times> sqlite" where
  "execute sql ps s =
     (if refused s then
        (False, s\<lparr>refusals := tl (refusals s), calls := calls s @ [NON_QUERY sql ps False]\<rparr>)
      else
        case apply_statement sql ps (tables s) of
          None \<Rightarrow>
            (False, s\<lparr>refusals := tl (refusals s), calls := calls s @ [NON_QUERY sql ps False]\<rparr>)
        | Some db \<Rightarrow>
            (True, s\<lparr>tables := db, refusals := tl (refusals s),
                     calls := calls s @ [NON_QUERY sql ps True]\<rparr>))"

text \<open>
  Modelled from the spec: \<^verbatim>\<open>SQLite::ExcuteNonQuery\<close> on a string, a statement
  without parameters.
\<close>

definition ExcuteNonQuery :: "sql_text \<Rightarrow> sqlite \<Rightarrow> bool \<times> sqlite" where
  "ExcuteNonQuery sql s = execute sql [] s"

text \<open>
  Modelled from the spec: \<^verbatim>\<open>SQLiteCommand\<close>, a statement and its parameters, numbered
  from 1, and \<^verbatim>\<open>SQLite::ExcuteNonQuery\<close> on a command. A parameter that was never
  bound is NULL; \<^verbatim>\<open>BindParam\<close> with the position alone binds NULL, written
  \<open>BindParam i SqlNull\<close> here. \<^verbatim>\<open>cmd.Clear()\<close> releases the statement and has no
  effect on the storage, so it has no counterpart.
\<close>

record SQLiteCommand =
  sql :: sql_text
  params :: "sql_value list"

definition SQLiteCommand :: "sql_text \<Rightarrow> nat \<Rightarrow> SQLiteCommand" where
  "SQLiteCommand q n = \<lparr>sql = q, params = replicate n SqlNull\<rparr>"

definition BindParam :: "nat \<Rightarrow> sql_value \<Rightarrow> SQLiteCommand \<Rightarrow> SQLiteCommand" where
  "BindParam i v cmd = cmd\<lparr>params := (params cmd)[i - 1 := v]\<rparr>"

definition ExcuteNonQuery_cmd :: "SQLiteCommand \<Rightarrow> sqlite \<Rightarrow> bool \<times> sqlite" where
  "ExcuteNonQuery_cmd cmd s = execute (sql cmd) (params cmd) s"

text \<open>
  Modelled from the spec: the transactions of the driver. The file does not look at
  what these calls return, and they do not fail here. A transaction opened inside
  another leaves the outer one in place.
\<close>

definition BeginTransaction :: "sqlite \<Rightarrow> sqlite" where
  "BeginTransaction s =
     s\<lparr>journal := (case journal s of None \<Rightarrow> Some (tables s) | Some j \<Rightarrow> Some j),
       calls := calls s @ [BEGIN]\<rparr>"

definition CommitTransaction :: "sqlite \<Rightarrow> sqlite" where
  "CommitTransaction s = s\<lparr>journal := None, calls := calls s @ [COMMIT]\<rparr>"

definition RollbackTransaction :: "sqlite \<Rightarrow> sqlite" where
  "RollbackTransaction s =
     s\<lparr>tables := (case journal s of None \<Rightarrow> tables s | Some j \<Rightarrow> j),
       journal := None, calls := calls s @ [ROLLBACK]\<rparr>"

text \<open>
  The decimal digits of an unsigned integer: \<^verbatim>\<open>std::to_string\<close> in
  \<^verbatim>\<open>db_operator.cc\<close>, and the text a column declared \<^verbatim>\<open>TEXT\<close> stores for an
  integer.
\<close>

fun to_string :: "nat \<Rightarrow> string" where
  "to_string n =
     (if n < 10 then [char_of (48 + n)]
      else to_string (n div 10) @ [char_of (48 + n mod 10)])"

declare to_string.simps [simp del]

text \<open>
  Modelled from the spec: what a column of a declared type stores of a value, and the
  order of the stored values: NULL comes first, then the integers by their value, then
  the texts, then the blobs, texts and blobs byte by byte, a proper prefix before its
  extensions. So the decimal texts ''9'' and ''10'' are in the order ''10'', ''9''.
\<close>

fun stored :: "affinity \<Rightarrow> sql_value \<Rightarrow> sql_value" where
  "stored TEXT (SqlInt v) = SqlText (to_string (unat v))"
| "stored a v = v"

fun bytes_less :: "nat list \<Rightarrow> nat list \<Rightarrow> bool" where
  "bytes_less [] [] = False"
| "bytes_less [] (y # ys) = True"
| "bytes_less (x # xs) [] = False"
| "bytes_less (x # xs) (y # ys) = (x < y \<or> (x = y \<and> bytes_less xs ys))"

fun sql_less :: "sql_value \<Rightarrow> sql_value \<Rightarrow> bool" where
  "sql_less SqlNull b = (b \<noteq> SqlNull)"
| "sql_less (SqlInt x) (SqlInt y) = (x < y)"
| "sql_less (SqlInt x) b = (b \<noteq> SqlNull)"
| "sql_less (SqlText x) (SqlText y) = bytes_less (map of_char x) (map of_char y)"
| "sql_less (SqlText x) b = (case b of SqlBlob y \<Rightarrow> True | _ \<Rightarrow> False)"
| "sql_less (SqlBlob x) (SqlBlob y) = bytes_less (map unat x) (map unat y)"
| "sql_less (SqlBlob x) b = False"

definition column_affinity :: "table \<Rightarrow> nat \<Rightarrow> affinity" where
  "column_affinity t c = (if c < length (columns t) then snd (columns t ! c) else BLOB)"

text \<open>
  Modelled from the spec: the maximum of a column of a declared type, which is the
  value that comes last in the order of the stored values, and NULL when no row holds a
  value; then the columns a query selects and the rows its conditions keep.
\<close>

definition greater_of :: "affinity \<Rightarrow> sql_value \<Rightarrow> sql_value \<Rightarrow> sql_value" where
  "greater_of a v m = (if sql_less (stored a m) (stored a v) then v else m)"

definition sql_max :: "affinity \<Rightarrow> sql_value list \<Rightarrow> sql_value" where
  "sql_max a vs = fold (greater_of a) vs SqlNull"

definition project :: "nat list option \<Rightarrow> row \<Rightarrow> row" where
  "project cols r = (case cols of None \<Rightarrow> r | Some cs \<Rightarrow> map (column r) cs)"

definition satisfies :: "(nat \<times> sql_value) list \<Rightarrow> row \<Rightarrow> bool" where
  "satisfies conds r = list_all (\<lambda>(c, v). sql_eq (column r c) v) conds"

text \<open>
  Modelled from the spec: the result set of a query; \<open>None\<close> is the query's
  failure (the table does not exist). Rows come in the order of their insertion.
  The catalog query matches the table of that very name.
\<close>

fun run_query :: "sql_query \<Rightarrow> database \<Rightarrow> row list option" where
  "run_query (COUNT_TABLES_LIKE n) db =
     Some [[SqlInt (case db n of None \<Rightarrow> 0 | Some t \<Rightarrow> 1)]]"
| "run_query (SELECT_WHERE n cols conds) db =
     (case db n of
        None \<Rightarrow> None
      | Some t \<Rightarrow> Some (map (project cols) (filter (satisfies conds) (rows t))))"
| "run_query (SELECT_MAX n c) db =
     (case db n of
        None \<Rightarrow> None
      | Some t \<Rightarrow> Some [[sql_max (column_affinity t c) (map (\<lambda>r. column r c) (rows t))]])"
| "run_query (SELECT_COUNT n) db =
     (case db n of
        None \<Rightarrow> None
      | Some t \<Rightarrow> Some [[SqlInt (of_nat (length (rows t)))]])"

text \<open>
  Modelled from the spec: \<^verbatim>\<open>SQLite::ExcuteQuery\<close>; the reader it hands back is the
  list of the rows of the result set, \<open>None\<close> when it returns false.
\<close>

definition ExcuteQuery :: "sql_query \<Rightarrow> sqlite \<Rightarrow> row list option \<times> sqlite" where
  "ExcuteQuery q s =
     (if refused s then
        (None, s\<lparr>refusals := tl (refusals s), calls := calls s @ [QUERY q False]\<rparr>)
      else
        (run_query q (tables s),
         s\<lparr>refusals := tl (refusals s),
           calls := calls s @ [QUERY q (run_query q (tables s) \<noteq> None)]\<rparr>))"

text \<open>
  Modelled from the spec: the typed getters of \<^verbatim>\<open>SQLiteDataReader\<close>, on the row the
  reader stands on. A value of another type, NULL included, reads as zero or as empty;
  \<^verbatim>\<open>GetIntValue\<close> yields a 32-bit signed integer, \<^verbatim>\<open>GetUint8Value\<close> the low byte.
\<close>

datatype SqliteDataType =
    kSqliteDataTypeNull | kSqliteDataTypeInteger | kSqliteDataTypeText | kSqliteDataTypeBlob

fun GetDataType :: "row \<Rightarrow> nat \<Rightarrow> SqliteDataType" where
  "GetDataType r i =
     (case column r i of
        SqlNull \<Rightarrow> kSqliteDataTypeNull
      | SqlInt v \<Rightarrow> kSqliteDataTypeInteger
      | SqlText t \<Rightarrow> kSqliteDataTypeText
      | SqlBlob b \<Rightarrow> kSqliteDataTypeBlob)"

fun GetUint64Value :: "row \<Rightarrow> nat \<Rightarrow> 64 word" where
  "GetUint64Value r i = (case column r i of SqlInt v \<Rightarrow> v | _ \<Rightarrow> 0)"

fun GetUint8Value :: "row \<Rightarrow> nat \<Rightarrow> 8 word" where
  "GetUint8Value r i = ucast (GetUint64Value r i)"

fun GetIntValue :: "row \<Rightarrow> nat \<Rightarrow> int" where
  "GetIntValue r i = sint (ucast (GetUint64Value r i) :: 32 word)"

fun GetStringValue :: "row \<Rightarrow> nat \<Rightarrow> string" where
  "GetStringValue r i = (case column r i of SqlText t \<Rightarrow> t | _ \<Rightarrow> [])"

fun GetBlobValue :: "row \<Rightarrow> nat \<Rightarrow> 8 word list" where
  "GetBlobValue r i = (case column r i of SqlBlob b \<Rightarrow> b | _ \<Rightarrow> [])"

section \<open>The records of the operator\<close>

text \<open>
  Modelled from the spec: the declarations of \<^verbatim>\<open>db_operator.h\<close> (section 3 of
  the specification); the header is not among the sources. Identifiers are unsigned
  64-bit integers, \<open>navi_number\<close> and \<open>navi_index\<close> unsigned bytes; the two speed
  fields have the width \<^verbatim>\<open>UpdateWaySpeedLimit\<close> gives them. The field \<open>way_id\<close> of
  the aggregates carries the aggregate's initials, since a field name belongs to one
  record only.
\<close>

record Way =
  way_id :: "64 word"
  pre_way_id :: "64 word"
  next_way_id :: "64 word"
  speed_min :: "8 word"
  speed_max :: "8 word"

record Node =
  node_index :: "64 word"
  data_line_number :: "64 word"
  node_value :: string

record WayNodes =
  wn_way_id :: "64 word"
  nodes :: "Node list"

record WayData =
  wd_way_id :: "64 word"
  raw_data :: "8 word list"
  navi_number :: "8 word"
  navi_table_id :: "64 word"

record NaviData =
  navi_index :: "8 word"
  data :: "8 word list"

record NaviInfo =
  ni_way_id :: "64 word"
  navi_data :: "NaviData list"

text \<open>
  Modelled from the spec: the enumeration \<^verbatim>\<open>TableNames\<close> of \<^verbatim>\<open>db_operator.h\<close>, by
  its values (section 4.1: the five tables by index 0 to 4, in the order of
  \<^verbatim>\<open>kTableNames\<close>; \<^verbatim>\<open>kMaxNumberOfTables\<close> is their number).
\<close>

definition kTableSpeedLimit :: nat where "kTableSpeedLimit = 0"
definition kTableWay :: nat where "kTableWay = 1"
definition kTableWayNodes :: nat where "kTableWayNodes = 2"
definition kTableWayData :: nat where "kTableWayData = 3"
definition kTableNaviData :: nat where "kTableNaviData = 4"
definition kMaxNumberOfTables :: nat where "kMaxNumberOfTables = 5"

definition kTableNames :: "string list" where
  "kTableNames = [''speed_limit'', ''way'', ''way_nodes'', ''way_data'', ''navi_data'']"

definition kMaxRowNumberOfDBTable :: "64 word" where
  "kMaxRowNumberOfDBTable = 10000"

text \<open>\<^verbatim>\<open>std::array::at\<close> throws \<^verbatim>\<open>std::out_of_range\<close> beyond the last element.\<close>

datatype exn = out_of_range

definition at :: "'a list \<Rightarrow> nat \<Rightarrow> exn + 'a" where
  "at xs i = (if i < length xs then Inr (xs ! i) else Inl out_of_range)"

section \<open>Schema\<close>

text \<open>
  \<^verbatim>\<open>DBOperatorBase::IsTableExisting\<close>. The index is below the number of tables where
  the name is read, so \<^verbatim>\<open>at\<close> does not throw there.
\<close>

definition IsTableExisting :: "nat \<Rightarrow> sqlite \<Rightarrow> bool \<times> sqlite" where
  "IsTableExisting table_name s =
     (if table_name \<ge> kMaxNumberOfTables then (False, s)
      else
        case ExcuteQuery (COUNT_TABLES_LIKE (kTableNames ! table_name)) s of
          (None, s') \<Rightarrow> (False, s')
        | (Some reader, s') \<Rightarrow>
            (let count = fold (\<lambda>row count. GetIntValue row 0) reader 0
             in ((if count > 0 then True else False), s')))"

text \<open>
  The statement of \<^verbatim>\<open>DBOperatorBase::CreateTable\<close> for each table: its name, its
  columns in order and the primary key; \<^verbatim>\<open>std::string sql\<close> stays empty for any
  other index. Each column has the type its declaration gives it. The
  \<^verbatim>\<open>REFERENCES\<close> clauses are left out: the modelled storage enforces no foreign
  key.
\<close>

definition CreateTable_sql :: "nat \<Rightarrow> sql_text" where
  "CreateTable_sql table_name =
     (if table_name = kTableSpeedLimit then
        CREATE_TABLE ''speed_limit'' [(''id'', INTEGER), (''speed'', INTEGER)] (Some 0)
      else if table_name = kTableWay then
        CREATE_TABLE ''way''
          [(''way_id'', TEXT), (''pre_way_id'', TEXT), (''next_way_id'', TEXT),
           (''speed_min'', INTEGER), (''speed_max'', INTEGER)] (Some 0)
      else if table_name = kTableWayNodes then
        CREATE_TABLE ''way_nodes''
          [(''way_id'', TEXT), (''node_index'', TEXT), (''data_line_number'', TEXT),
           (''node_value'', TEXT)] None
      else if table_name = kTableWayData then
        CREATE_TABLE ''way_data''
          [(''way_id'', TEXT), (''raw_data'', BLOB), (''navi_number'', INTEGER),
           (''navi_table_id'', TEXT)] (Some 0)
      else if table_name = kTableNaviData then
        CREATE_TABLE ''navi_data''
          [(''way_id'', TEXT), (''navi_index'', INTEGER), (''data'', BLOB)] None
      else EMPTY)"

text \<open>
  \<^verbatim>\<open>DBOperatorBase::CreateTable\<close>. The failure branch reads
  \<^verbatim>\<open>kTableNames.at(table_name)\<close> for its message, which throws for an index that
  is no table; the storage is then as the failed statement left it.
\<close>

definition CreateTable :: "nat \<Rightarrow> sqlite \<Rightarrow> (exn + bool) \<times> sqlite" where
  "CreateTable table_name s =
     (case ExcuteNonQuery (CreateTable_sql table_name) s of
        (False, s') \<Rightarrow>
          (case at kTableNames table_name of
             Inl e \<Rightarrow> (Inl e, s')
           | Inr name \<Rightarrow> (Inr False, s'))
      | (True, s') \<Rightarrow> (Inr True, s'))"

section \<open>Seeding and initialisation\<close>

definition speed_base :: nat where "speed_base = 30"
definition speed_step :: nat where "speed_step = 10"

text \<open>The loop of \<^verbatim>\<open>DBOperator::FillTableSpeedLimit\<close>, from \<open>i\<close> on; it yields \<^verbatim>\<open>res\<close>.\<close>

function FillTableSpeedLimit_loop :: "nat \<Rightarrow> SQLiteCommand \<Rightarrow> sqlite \<Rightarrow> bool \<times> sqlite" where
  "FillTableSpeedLimit_loop i cmd s =
     (if i \<le> 13 then
        (let cmd1 = BindParam 1 (SqlInt (of_nat i)) cmd;
             cmd2 = BindParam 2 (SqlInt (of_nat (speed_base + speed_step * (i - 1)))) cmd1
         in case ExcuteNonQuery_cmd cmd2 s of
              (False, s') \<Rightarrow> (False, s')
            | (True, s') \<Rightarrow> FillTableSpeedLimit_loop (i + 1) cmd2 s')
      else (True, s))"
  by pat_completeness auto
termination
  by (relation "measure (\<lambda>(i, cmd, s). 14 - i)") auto

declare FillTableSpeedLimit_loop.simps [simp del]

definition FillTableSpeedLimit :: "sqlite \<Rightarrow> bool \<times> sqlite" where
  "FillTableSpeedLimit s =
     (let s0 = BeginTransaction s;
          cmd = SQLiteCommand (INSERT_INTO ''speed_limit'') 2
      in case FillTableSpeedLimit_loop 1 cmd s0 of
           (True, s') \<Rightarrow> (True, CommitTransaction s')
         | (False, s') \<Rightarrow> (False, RollbackTransaction s'))"

text \<open>
  The \<^verbatim>\<open>&&\<close> of C++ over calls that return a flag or throw: the right operand runs
  only after the left one has returned true.
\<close>

definition and_then ::
  "(sqlite \<Rightarrow> (exn + bool) \<times> sqlite) \<Rightarrow> (sqlite \<Rightarrow> (exn + bool) \<times> sqlite) \<Rightarrow>
   sqlite \<Rightarrow> (exn + bool) \<times> sqlite" where
  "and_then f g s =
     (case f s of
        (Inr True, s') \<Rightarrow> g s'
      | (Inr False, s') \<Rightarrow> (Inr False, s')
      | (Inl e, s') \<Rightarrow> (Inl e, s'))"

definition returning :: "(sqlite \<Rightarrow> bool \<times> sqlite) \<Rightarrow> sqlite \<Rightarrow> (exn + bool) \<times> sqlite" where
  "returning f s = (case f s of (b, s') \<Rightarrow> (Inr b, s'))"

text \<open>\<^verbatim>\<open>DBOperator::InitDatabase\<close>.\<close>

definition InitDatabase :: "sqlite \<Rightarrow> (exn + bool) \<times> sqlite" where
  "InitDatabase s =
     (case IsTableExisting kTableWay s of
        (True, s0) \<Rightarrow> (Inr True, s0)
      | (False, s0) \<Rightarrow>
          (case and_then (CreateTable kTableSpeedLimit)
                 (and_then (CreateTable kTableWay)
                   (and_then (CreateTable kTableWayNodes)
                     (and_then (CreateTable kTableWayData)
                       (and_then (CreateTable kTableNaviData)
                         (returning FillTableSpeedLimit))))) s0 of
             (Inr True, s') \<Rightarrow> (Inr True, s')
           | (Inr False, s') \<Rightarrow> (Inr False, s')
           | (Inl e, s') \<Rightarrow> (Inl e, s')))"

section \<open>Saving\<close>

text \<open>\<^verbatim>\<open>DBOperator::SaveWay\<close>.\<close>

definition SaveWay :: "Way \<Rightarrow> sqlite \<Rightarrow> bool \<times> sqlite" where
  "SaveWay way s =
     (let cmd = SQLiteCommand (INSERT_INTO ''way'') 5;
          cmd = BindParam 1 (SqlInt (way_id way)) cmd;
          cmd = (if pre_way_id way = 0 then BindParam 2 SqlNull cmd
                 else BindParam 2 (SqlInt (pre_way_id way)) cmd);
          cmd = (if next_way_id way = 0 then BindParam 3 SqlNull cmd
                 else BindParam 3 (SqlInt (next_way_id way)) cmd);
          cmd = BindParam 4 (SqlInt (ucast (speed_min way))) cmd;
          cmd = BindParam 5 (SqlInt (ucast (speed_max way))) cmd
      in ExcuteNonQuery_cmd cmd s)"

text \<open>The loop of \<^verbatim>\<open>DBOperator::SaveWayNodes\<close>; it yields \<^verbatim>\<open>res\<close>.\<close>

fun SaveWayNodes_loop :: "Node list \<Rightarrow> SQLiteCommand \<Rightarrow> sqlite \<Rightarrow> bool \<times> sqlite" where
  "SaveWayNodes_loop [] cmd s = (True, s)"
| "SaveWayNodes_loop (node # rest) cmd s =
     (let cmd2 = BindParam 2 (SqlInt (node_index node)) cmd;
          cmd3 = BindParam 3 (SqlInt (data_line_number node)) cmd2;
          cmd4 = BindParam 4 (SqlText (node_value node)) cmd3
      in case ExcuteNonQuery_cmd cmd4 s of
           (False, s') \<Rightarrow> (False, s')
         | (True, s') \<Rightarrow> SaveWayNodes_loop rest cmd4 s')"

definition SaveWayNodes :: "WayNodes \<Rightarrow> sqlite \<Rightarrow> bool \<times> sqlite" where
  "SaveWayNodes way_nodes s =
     (let s0 = BeginTransaction s;
          cmd = SQLiteCommand (INSERT_INTO ''way_nodes'') 4;
          cmd = BindParam 1 (SqlInt (wn_way_id way_nodes)) cmd
      in case SaveWayNodes_loop (nodes way_nodes) cmd s0 of
           (True, s') \<Rightarrow> (True, CommitTransaction s')
         | (False, s') \<Rightarrow> (False, RollbackTransaction s'))"

text \<open>\<^verbatim>\<open>DBOperator::SaveWayData\<close>.\<close>

definition SaveWayData :: "WayData \<Rightarrow> sqlite \<Rightarrow> bool \<times> sqlite" where
  "SaveWayData way_data s =
     (let cmd = SQLiteCommand (INSERT_INTO ''way_data'') 4;
          cmd = BindParam 1 (SqlInt (wd_way_id way_data)) cmd;
          cmd = BindParam 2 (SqlBlob (raw_data way_data)) cmd;
          cmd = BindParam 3 (SqlInt (ucast (navi_number way_data))) cmd;
          cmd = BindParam 4 (SqlInt (navi_table_id way_data)) cmd
      in ExcuteNonQuery_cmd cmd s)"

text \<open>The loop of \<^verbatim>\<open>DBOperator::SaveNaviData\<close>; it yields \<^verbatim>\<open>res\<close>.\<close>

fun SaveNaviData_loop :: "NaviData list \<Rightarrow> SQLiteCommand \<Rightarrow> sqlite \<Rightarrow> bool \<times> sqlite" where
  "SaveNaviData_loop [] cmd s = (True, s)"
| "SaveNaviData_loop (d # rest) cmd s =
     (let cmd2 = BindParam 2 (SqlInt (ucast (navi_index d))) cmd;
          cmd3 = BindParam 3 (SqlBlob (data d)) cmd2
      in case ExcuteNonQuery_cmd cmd3 s of
           (False, s') \<Rightarrow> (False, s')
         | (True, s') \<Rightarrow> SaveNaviData_loop rest cmd3 s')"

definition SaveNaviData :: "NaviInfo \<Rightarrow> sqlite \<Rightarrow> bool \<times> sqlite" where
  "SaveNaviData navi_info s =
     (let s0 = BeginTransaction s;
          cmd = SQLiteCommand (INSERT_INTO ''navi_data'') 3;
          cmd = BindParam 1 (SqlInt (ni_way_id navi_info)) cmd
      in case SaveNaviData_loop (navi_data navi_info) cmd s0 of
           (True, s') \<Rightarrow> (True, CommitTransaction s')
         | (False, s') \<Rightarrow> (False, RollbackTransaction s'))"

section \<open>Queries\<close>

text \<open>
  A query operation takes the value its output parameter holds before the call and
  returns the flag, the value the parameter holds after the call and the connection.
  The parameter is never null here (\<^verbatim>\<open>CHECK_NOTNULL\<close> aborts on a null pointer).
  The loop \<^verbatim>\<open>while (reader->Read())\<close> is a fold over the rows of the result set.
\<close>

definition read_NaviData :: "row \<Rightarrow> NaviData" where
  "read_NaviData r = \<lparr>navi_index = word_of_int (GetIntValue r 0), data = GetBlobValue r 1\<rparr>"

text \<open>\<^verbatim>\<open>DBOperator::QueryNaviDataWithWayId\<close>, the overload that fills a vector.\<close>

definition QueryNaviDataWithWayId ::
  "64 word \<Rightarrow> NaviData list \<Rightarrow> sqlite \<Rightarrow> bool \<times> NaviData list \<times> sqlite" where
  "QueryNaviDataWithWayId wid out s =
     (case ExcuteQuery (SELECT_WHERE ''navi_data'' (Some [1, 2]) [(0, SqlInt wid)]) s of
        (None, s') \<Rightarrow> (False, out, s')
      | (Some reader, s') \<Rightarrow>
          (case fold (\<lambda>r (res, out). (True, out @ [read_NaviData r])) reader (False, out) of
             (res, out') \<Rightarrow> (res, out', s')))"

text \<open>
  \<^verbatim>\<open>DBOperator::QueryNaviDataWithWayId\<close>, the overload for one entry. It selects the
  column \<^verbatim>\<open>data\<close> alone and reads the columns 0 and 1 of the result.
\<close>

definition QueryNaviDataWithWayId_index ::
  "64 word \<Rightarrow> 8 word \<Rightarrow> NaviData \<Rightarrow> sqlite \<Rightarrow> bool \<times> NaviData \<times> sqlite" where
  "QueryNaviDataWithWayId_index wid idx out s =
     (case ExcuteQuery
             (SELECT_WHERE ''navi_data'' (Some [2]) [(0, SqlInt wid), (1, SqlInt (ucast idx))]) s of
        (None, s') \<Rightarrow> (False, out, s')
      | (Some reader, s') \<Rightarrow>
          (case fold (\<lambda>r (res, out).
                  (True, out\<lparr>navi_index := GetUint8Value r 0, data := GetBlobValue r 1\<rparr>))
                reader (False, out) of
             (res, out') \<Rightarrow> (res, out', s')))"

definition read_Node :: "row \<Rightarrow> Node" where
  "read_Node r =
     \<lparr>node_index = GetUint64Value r 1, data_line_number = GetUint64Value r 2,
      node_value = GetStringValue r 3\<rparr>"

text \<open>\<^verbatim>\<open>DBOperator::QueryWayNodesWithWayId\<close>.\<close>

definition QueryWayNodesWithWayId ::
  "64 word \<Rightarrow> WayNodes \<Rightarrow> sqlite \<Rightarrow> bool \<times> WayNodes \<times> sqlite" where
  "QueryWayNodesWithWayId wid out s =
     (case ExcuteQuery (SELECT_WHERE ''way_nodes'' None [(0, SqlInt wid)]) s of
        (None, s') \<Rightarrow> (False, out, s')
      | (Some reader, s') \<Rightarrow>
          (case fold (\<lambda>r (res, ns). (True, ns @ [read_Node r])) reader (False, []) of
             (res, ns) \<Rightarrow>
               (res,
                (if length ns > 0 then out\<lparr>wn_way_id := wid, nodes := ns\<rparr> else out),
                s')))"

text \<open>The body of the loop of \<^verbatim>\<open>DBOperator::QueryWayWithWayId\<close>.\<close>

definition read_Way :: "row \<Rightarrow> Way \<Rightarrow> Way" where
  "read_Way r way =
     way\<lparr>way_id := GetUint64Value r 0,
         pre_way_id :=
           (if GetDataType r 1 = kSqliteDataTypeNull then 0 else GetUint64Value r 1),
         next_way_id :=
           (if GetDataType r 2 = kSqliteDataTypeNull then 0 else GetUint64Value r 2),
         speed_min :=
           (if GetDataType r 3 = kSqliteDataTypeNull then 0 else ucast (GetUint64Value r 3)),
         speed_max :=
           (if GetDataType r 4 = kSqliteDataTypeNull then 0 else ucast (GetUint64Value r 4))\<rparr>"

text \<open>\<^verbatim>\<open>DBOperator::QueryWayWithWayId\<close>.\<close>

definition QueryWayWithWayId :: "64 word \<Rightarrow> Way \<Rightarrow> sqlite \<Rightarrow> bool \<times> Way \<times> sqlite" where
  "QueryWayWithWayId wid out s =
     (case ExcuteQuery (SELECT_WHERE ''way'' None [(0, SqlInt wid)]) s of
        (None, s') \<Rightarrow> (False, out, s')
      | (Some reader, s') \<Rightarrow>
          (case fold (\<lambda>r (res, way). (True, read_Way r way)) reader (False, out) of
             (res, out') \<Rightarrow> (res, out', s')))"

definition read_WayData :: "row \<Rightarrow> WayData \<Rightarrow> WayData" where
  "read_WayData r way_data =
     way_data\<lparr>wd_way_id := GetUint64Value r 0, raw_data := GetBlobValue r 1,
              navi_number := GetUint8Value r 2, navi_table_id := GetUint64Value r 3\<rparr>"

text \<open>\<^verbatim>\<open>DBOperator::QueryWayDataWithWayId\<close>.\<close>

definition QueryWayDataWithWayId ::
  "64 word \<Rightarrow> WayData \<Rightarrow> sqlite \<Rightarrow> bool \<times> WayData \<times> sqlite" where
  "QueryWayDataWithWayId wid out s =
     (case ExcuteQuery (SELECT_WHERE ''way_data'' None [(0, SqlInt wid)]) s of
        (None, s') \<Rightarrow> (False, out, s')
      | (Some reader, s') \<Rightarrow>
          (case fold (\<lambda>r (res, way_data). (True, read_WayData r way_data)) reader (False, out) of
             (res, out') \<Rightarrow> (res, out', s')))"

section \<open>Updates and deletions\<close>

text \<open>\<^verbatim>\<open>DBOperator::UpdateWay\<close>.\<close>

definition UpdateWay :: "64 word \<Rightarrow> Way \<Rightarrow> sqlite \<Rightarrow> bool \<times> sqlite" where
  "UpdateWay wid way s =
     (let cmd = SQLiteCommand (UPDATE_SET ''way'' [1, 2, 3, 4] 0) 5;
          cmd = (if pre_way_id way = 0 then BindParam 1 SqlNull cmd
                 else BindParam 1 (SqlInt (pre_way_id way)) cmd);
          cmd = (if next_way_id way = 0 then BindParam 2 SqlNull cmd
                 else BindParam 2 (SqlInt (next_way_id way)) cmd);
          cmd = BindParam 3 (SqlInt (ucast (speed_min way))) cmd;
          cmd = BindParam 4 (SqlInt (ucast (speed_max way))) cmd;
          cmd = BindParam 5 (SqlInt wid) cmd
      in ExcuteNonQuery_cmd cmd s)"

text \<open>\<^verbatim>\<open>DBOperator::UpdateWaySpeedLimit\<close>.\<close>

definition UpdateWaySpeedLimit :: "64 word \<Rightarrow> 8 word \<Rightarrow> 8 word \<Rightarrow> sqlite \<Rightarrow> bool \<times> sqlite" where
  "UpdateWaySpeedLimit wid smin smax s =
     (let cmd = SQLiteCommand (UPDATE_SET ''way'' [3, 4] 0) 3;
          cmd = BindParam 1 (SqlInt (ucast smin)) cmd;
          cmd = BindParam 2 (SqlInt (ucast smax)) cmd;
          cmd = BindParam 3 (SqlInt wid) cmd
      in ExcuteNonQuery_cmd cmd s)"

text \<open>\<^verbatim>\<open>DBOperator::UpdateWayNodes\<close>.\<close>

definition UpdateWayNodes :: "64 word \<Rightarrow> WayNodes \<Rightarrow> sqlite \<Rightarrow> bool \<times> sqlite" where
  "UpdateWayNodes wid way_nodes s =
     (let cmd = SQLiteCommand (DELETE_FROM ''way_nodes'' 0) 1;
          cmd = BindParam 1 (SqlInt wid) cmd
      in case ExcuteNonQuery_cmd cmd s of
           (False, s') \<Rightarrow> (False, s')
         | (True, s') \<Rightarrow> SaveWayNodes way_nodes s')"

text \<open>\<^verbatim>\<open>DBOperator::UpdateWayData\<close>.\<close>

definition UpdateWayData :: "64 word \<Rightarrow> WayData \<Rightarrow> sqlite \<Rightarrow> bool \<times> sqlite" where
  "UpdateWayData wid way_data s =
     (let cmd = SQLiteCommand (UPDATE_SET ''way_data'' [1, 2, 3] 0) 4;
          cmd = BindParam 1 (SqlBlob (raw_data way_data)) cmd;
          cmd = BindParam 2 (SqlInt (ucast (navi_number way_data))) cmd;
          cmd = BindParam 3 (SqlInt (navi_table_id way_data)) cmd;
          cmd = BindParam 4 (SqlInt wid) cmd
      in ExcuteNonQuery_cmd cmd s)"

text \<open>\<^verbatim>\<open>DBOperator::UpdateNaviData\<close>.\<close>

definition UpdateNaviData :: "64 word \<Rightarrow> NaviInfo \<Rightarrow> sqlite \<Rightarrow> bool \<times> sqlite" where
  "UpdateNaviData wid navi_info s =
     (let cmd = SQLiteCommand (DELETE_FROM ''navi_data'' 0) 1;
          cmd = BindParam 1 (SqlInt wid) cmd
      in case ExcuteNonQuery_cmd cmd s of
           (False, s') \<Rightarrow> (False, s')
         | (True, s') \<Rightarrow> SaveNaviData navi_info s')"

text \<open>\<^verbatim>\<open>DBOperator::DeleteWayNodes\<close>, \<^verbatim>\<open>DeleteWayData\<close>, \<^verbatim>\<open>DeleteNaviData\<close>.\<close>

definition DeleteWayNodes :: "64 word \<Rightarrow> sqlite \<Rightarrow> bool \<times> sqlite" where
  "DeleteWayNodes wid s =
     (let cmd = SQLiteCommand (DELETE_FROM ''way_nodes'' 0) 1;
          cmd = BindParam 1 (SqlInt wid) cmd
      in ExcuteNonQuery_cmd cmd s)"

definition DeleteWayData :: "64 word \<Rightarrow> sqlite \<Rightarrow> bool \<times> sqlite" where
  "DeleteWayData wid s =
     (let cmd = SQLiteCommand (DELETE_FROM ''way_data'' 0) 1;
          cmd = BindParam 1 (SqlInt wid) cmd
      in ExcuteNonQuery_cmd cmd s)"

definition DeleteNaviData :: "64 word \<Rightarrow> sqlite \<Rightarrow> bool \<times> sqlite" where
  "DeleteNaviData wid s =
     (let cmd = SQLiteCommand (DELETE_FROM ''navi_data'' 0) 1;
          cmd = BindParam 1 (SqlInt wid) cmd
      in ExcuteNonQuery_cmd cmd s)"

text \<open>\<^verbatim>\<open>DBOperator::DeleteWay\<close>.\<close>

definition DeleteWay :: "64 word \<Rightarrow> sqlite \<Rightarrow> bool \<times> sqlite" where
  "DeleteWay wid s =
     (let cmd = SQLiteCommand (DELETE_FROM ''way'' 0) 1;
          cmd = BindParam 1 (SqlInt wid) cmd
      in case ExcuteNonQuery_cmd cmd s of
           (False, s1) \<Rightarrow> (False, s1)
         | (True, s1) \<Rightarrow>
             (case DeleteWayNodes wid s1 of
                (False, s2) \<Rightarrow> (False, s2)
              | (True, s2) \<Rightarrow>
                  (case DeleteWayData wid s2 of
                     (False, s3) \<Rightarrow> (False, s3)
                   | (True, s3) \<Rightarrow>
                       (case DeleteNaviData wid s3 of
                          (False, s4) \<Rightarrow> (False, s4)
                        | (True, s4) \<Rightarrow> (True, s4)))))"

section \<open>Allocation\<close>

text \<open>\<^verbatim>\<open>DBOperator::CreateNewWayId\<close>; the addition is that of \<^verbatim>\<open>std::uint64_t\<close>.\<close>

definition CreateNewWayId :: "64 word \<Rightarrow> sqlite \<Rightarrow> bool \<times> 64 word \<times> sqlite" where
  "CreateNewWayId out s =
     (case ExcuteQuery (SELECT_MAX ''way'' 0) s of
        (None, s') \<Rightarrow> (False, out, s')
      | (Some reader, s') \<Rightarrow>
          (case fold (\<lambda>r (res, wid).
                  (True, if GetDataType r 0 = kSqliteDataTypeNull then 1
                         else GetUint64Value r 0 + 1))
                reader (False, out) of
             (res, out') \<Rightarrow> (res, out', s')))"

text \<open>\<^verbatim>\<open>DBOperator::GetNaviTableId\<close>.\<close>

definition GetNaviTableId :: "64 word \<Rightarrow> sqlite \<Rightarrow> bool \<times> 64 word \<times> sqlite" where
  "GetNaviTableId out s =
     (case ExcuteQuery (SELECT_MAX ''way_data'' 3) s of
        (None, s1) \<Rightarrow> (False, out, s1)
      | (Some reader1, s1) \<Rightarrow>
          (case fold (\<lambda>r (res, cur).
                  (True, if GetDataType r 0 = kSqliteDataTypeNull then 0
                         else GetUint64Value r 0))
                reader1 (False, 0) of
             (res1, cur_max_table_id) \<Rightarrow>
               (case ExcuteQuery
                       (SELECT_COUNT (''navi_data_'' @ to_string (unat cur_max_table_id))) s1 of
                  (None, s2) \<Rightarrow> (False, out, s2)
                | (Some reader2, s2) \<Rightarrow>
                    (case fold (\<lambda>r (res, n). (True, GetUint64Value r 0)) reader2 (res1, 0) of
                       (res, table_line_counts) \<Rightarrow>
                         (res,
                          (if table_line_counts < kMaxRowNumberOfDBTable then cur_max_table_id
                           else cur_max_table_id + 1),
                          s2)))))"

section \<open>Vocabulary of the properties\<close>

text \<open>The rows a batch writes: one row for each element of the aggregate.\<close>

definition Node_row :: "64 word \<Rightarrow> Node \<Rightarrow> row" where
  "Node_row wid node =
     [SqlInt wid, SqlInt (node_index node), SqlInt (data_line_number node),
      SqlText (node_value node)]"

definition NaviData_row :: "64 word \<Rightarrow> NaviData \<Rightarrow> row" where
  "NaviData_row wid d = [SqlInt wid, SqlInt (ucast (navi_index d)), SqlBlob (data d)]"

definition seed_row :: "nat \<Rightarrow> row" where
  "seed_row i = [SqlInt (of_nat i), SqlInt (of_nat (30 + 10 * (i - 1)))]"

definition seed_rows :: "row list" where
  "seed_rows = map seed_row [1..<14]"

text \<open>A table with rows added at its end; a table that does not exist stays so.\<close>

definition insert_rows :: "string \<Rightarrow> row list \<Rightarrow> database \<Rightarrow> database" where
  "insert_rows n rs db = (case db n of None \<Rightarrow> db | Some t \<Rightarrow> db(n \<mapsto> t\<lparr>rows := rows t @ rs\<rparr>))"

text \<open>Inserting the rows of a batch one after the other, up to the first failure.\<close>

fun insert_each :: "string \<Rightarrow> row list \<Rightarrow> sqlite \<Rightarrow> bool \<times> sqlite" where
  "insert_each n [] s = (True, s)"
| "insert_each n (r # rs) s =
     (case execute (INSERT_INTO n) r s of
        (False, s') \<Rightarrow> (False, s')
      | (True, s') \<Rightarrow> insert_each n rs s')"

text \<open>
  The calls of a batch of which the first \<open>k\<close> inserts succeed: the transaction is
  opened, the rows are inserted in order, and the transaction is committed after the
  last row or rolled back after the insert that failed.
\<close>

definition batch_calls :: "string \<Rightarrow> row list \<Rightarrow> nat \<Rightarrow> call list" where
  "batch_calls n rs k =
     BEGIN # map (\<lambda>r. NON_QUERY (INSERT_INTO n) r True) (take k rs) @
       (if k < length rs then [NON_QUERY (INSERT_INTO n) (rs ! k) False, ROLLBACK]
        else [COMMIT])"

text \<open>
  An operation wrote the batch \<open>rs\<close> to the table \<open>n\<close> in one transaction: it made the
  calls of a batch, returned true exactly when every insert succeeded, left all the
  rows in the table in that case and the storage as it was before in the other, and left
  no transaction open.
\<close>

definition transactional_batch :: "string \<Rightarrow> row list \<Rightarrow> sqlite \<Rightarrow> bool \<times> sqlite \<Rightarrow> bool" where
  "transactional_batch n rs s r =
     (\<exists>k\<in>{..length rs}.
        calls (snd r) = calls s @ batch_calls n rs k \<and>
        fst r = (k = length rs) \<and>
        tables (snd r) = (if k = length rs then insert_rows n rs (tables s) else tables s) \<and>
        journal (snd r) = None)"

text \<open>
  The five tables as section 3 of the specification lists them, with the columns and
  keys the statements of \<^verbatim>\<open>CreateTable\<close> declare, and the statements that create
  them, in the order of the initialisation.
\<close>

definition speed_limit_table :: "row list \<Rightarrow> table" where
  "speed_limit_table rs =
     \<lparr>columns = [(''id'', INTEGER), (''speed'', INTEGER)], pkey = Some 0, rows = rs\<rparr>"

definition way_table :: "row list \<Rightarrow> table" where
  "way_table rs =
     \<lparr>columns = [(''way_id'', TEXT), (''pre_way_id'', TEXT), (''next_way_id'', TEXT),
                 (''speed_min'', INTEGER), (''speed_max'', INTEGER)],
      pkey = Some 0, rows = rs\<rparr>"

definition way_nodes_table :: "row list \<Rightarrow> table" where
  "way_nodes_table rs =
     \<lparr>columns = [(''way_id'', TEXT), (''node_index'', TEXT), (''data_line_number'', TEXT),
                 (''node_value'', TEXT)],
      pkey = None, rows = rs\<rparr>"

definition way_data_table :: "row list \<Rightarrow> table" where
  "way_data_table rs =
     \<lparr>columns = [(''way_id'', TEXT), (''raw_data'', BLOB), (''navi_number'', INTEGER),
                 (''navi_table_id'', TEXT)],
      pkey = Some 0, rows = rs\<rparr>"

definition navi_data_table :: "row list \<Rightarrow> table" where
  "navi_data_table rs =
     \<lparr>columns = [(''way_id'', TEXT), (''navi_index'', INTEGER), (''data'', BLOB)],
      pkey = None, rows = rs\<rparr>"



text \<open>The parameters \<^verbatim>\<open>SaveWay\<close> binds, which are the row it inserts.\<close>

definition Way_row :: "Way \<Rightarrow> row" where
  "Way_row way =
     [SqlInt (way_id way),
      if pre_way_id way = 0 then SqlNull else SqlInt (pre_way_id way),
      if next_way_id way = 0 then SqlNull else SqlInt (next_way_id way),
      SqlInt (ucast (speed_min way)), SqlInt (ucast (speed_max way))]"







text \<open>
  The operations of the component on a connection, with their arguments, and the
  connection each of them leaves. \<^verbatim>\<open>FillTableSpeedLimit\<close> is a step of
  \<^verbatim>\<open>InitDatabase\<close> and no operation of its own.
\<close>

datatype operation =
    OpIsTableExisting nat
  | OpCreateTable nat
  | OpInitDatabase
  | OpSaveWay Way
  | OpSaveWayNodes WayNodes
  | OpSaveWayData WayData
  | OpSaveNaviData NaviInfo
  | OpQueryNaviData "64 word" "NaviData list"
  | OpQueryNaviDataIndex "64 word" "8 word" NaviData
  | OpQueryWayNodes "64 word" WayNodes
  | OpQueryWay "64 word" Way
  | OpQueryWayData "64 word" WayData
  | OpUpdateWay "64 word" Way
  | OpUpdateWaySpeedLimit "64 word" "8 word" "8 word"
  | OpUpdateWayNodes "64 word" WayNodes
  | OpUpdateWayData "64 word" WayData
  | OpUpdateNaviData "64 word" NaviInfo
  | OpDeleteWay "64 word"
  | OpDeleteWayNodes "64 word"
  | OpDeleteWayData "64 word"
  | OpDeleteNaviData "64 word"
  | OpCreateNewWayId "64 word"
  | OpGetNaviTableId "64 word"

fun after :: "operation \<Rightarrow> sqlite \<Rightarrow> sqlite" where
  "after (OpIsTableExisting i) s = snd (IsTableExisting i s)"
| "after (OpCreateTable i) s = snd (CreateTable i s)"
| "after OpInitDatabase s = snd (InitDatabase s)"
| "after (OpSaveWay w) s = snd (SaveWay w s)"
| "after (OpSaveWayNodes wn) s = snd (SaveWayNodes wn s)"
| "after (OpSaveWayData wd) s = snd (SaveWayData wd s)"
| "after (OpSaveNaviData ni) s = snd (SaveNaviData ni s)"
| "after (OpQueryNaviData wid out) s = snd (snd (QueryNaviDataWithWayId wid out s))"
| "after (OpQueryNaviDataIndex wid idx out) s =
     snd (snd (QueryNaviDataWithWayId_index wid idx out s))"
| "after (OpQueryWayNodes wid out) s = snd (snd (QueryWayNodesWithWayId wid out s))"
| "after (OpQueryWay wid out) s = snd (snd (QueryWayWithWayId wid out s))"
| "after (OpQueryWayData wid out) s = snd (snd (QueryWayDataWithWayId wid out s))"
| "after (OpUpdateWay wid w) s = snd (UpdateWay wid w s)"
| "after (OpUpdateWaySpeedLimit wid a b) s = snd (UpdateWaySpeedLimit wid a b s)"
| "after (OpUpdateWayNodes wid wn) s = snd (UpdateWayNodes wid wn s)"
| "after (OpUpdateWayData wid wd) s = snd (UpdateWayData wid wd s)"
| "after (OpUpdateNaviData wid ni) s = snd (UpdateNaviData wid ni s)"
| "after (OpDeleteWay wid) s = snd (DeleteWay wid s)"
| "after (OpDeleteWayNodes wid) s = snd (DeleteWayNodes wid s)"
| "after (OpDeleteWayData wid) s = snd (DeleteWayData wid s)"
| "after (OpDeleteNaviData wid) s = snd (DeleteNaviData wid s)"
| "after (OpCreateNewWayId out) s = snd (snd (CreateNewWayId out s))"
| "after (OpGetNaviTableId out) s = snd (snd (GetNaviTableId out s))"

text \<open>The table a statement writes to.\<close>

fun target :: "sql_text \<Rightarrow> string option" where
  "target EMPTY = None"
| "target (CREATE_TABLE n cols pk) = Some n"
| "target (INSERT_INTO n) = Some n"
| "target (UPDATE_SET n cs w) = Some n"
| "target (DELETE_FROM n w) = Some n"

text \<open>No transaction is open and the table \<^verbatim>\<open>speed_limit\<close> is \<open>t\<close>.\<close>

definition kept :: "table \<Rightarrow> sqlite \<Rightarrow> bool" where
  "kept t s = (journal s = None \<and> tables s ''speed_limit'' = Some t)"

text \<open>The query runs and its result set has a row: a row is read.\<close>

definition found :: "sql_query \<Rightarrow> sqlite \<Rightarrow> bool" where
  "found q s = (case fst (ExcuteQuery q s) of None \<Rightarrow> False | Some rs \<Rightarrow> rs \<noteq> [])"

text \<open>The storage refuses none of the next \<open>n\<close> statements.\<close>

definition accepts :: "nat \<Rightarrow> sqlite \<Rightarrow> bool" where
  "accepts n s = (True \<notin> set (take n (refusals s)))"

text \<open>
  A batch run against the storage: the transaction is opened, the rows are inserted in
  order up to the first insert the storage does not accept, and the transaction is
  committed, with the result true, when every row was inserted, and rolled back, with
  the result false, otherwise.
\<close>

definition in_one_transaction :: "string \<Rightarrow> row list \<Rightarrow> sqlite \<Rightarrow> bool \<times> sqlite" where
  "in_one_transaction n rs s =
     (case insert_each n rs (BeginTransaction s) of
        (True, s') \<Rightarrow> (True, CommitTransaction s')
      | (False, s') \<Rightarrow> (False, RollbackTransaction s'))"

text \<open>
  Statements without parameters executed on the storage one after the other, up to the
  first that fails; the result is true when none failed.
\<close>

fun execute_each :: "sql_text list \<Rightarrow> sqlite \<Rightarrow> bool \<times> sqlite" where
  "execute_each [] s = (True, s)"
| "execute_each (q # qs) s =
     (case execute q [] s of
        (True, s') \<Rightarrow> execute_each qs s'
      | (False, s') \<Rightarrow> (False, s'))"


section \<open>Example connections\<close>

definition empty_db :: sqlite where
  "empty_db = \<lparr>tables = Map.empty, journal = None, refusals = [], calls = []\<rparr>"

definition initialised :: sqlite where
  "initialised = snd (InitDatabase empty_db)"

text \<open>A storage that refuses the fourth statement it is given.\<close>

definition failing :: sqlite where
  "failing = empty_db\<lparr>refusals := [False, False, False, True]\<rparr>"

text \<open>
  The storage after the initialisation that the refusal has stopped: the tables
  \<^verbatim>\<open>speed_limit\<close> and \<^verbatim>\<open>way\<close> exist, the seed was never written.
\<close>

definition half_made :: sqlite where
  "half_made = snd (InitDatabase failing)"

text \<open>A storage that refuses the first statement it is given.\<close>

definition refusing :: sqlite where
  "refusing = empty_db\<lparr>refusals := [True]\<rparr>"

text \<open>The three tables of the batches, empty, on a storage that refuses the second statement.\<close>

definition batch_db :: sqlite where
  "batch_db =
     \<lparr>tables =
        [''speed_limit'' \<mapsto> speed_limit_table [], ''way_nodes'' \<mapsto> way_nodes_table [],
         ''navi_data'' \<mapsto> navi_data_table []],
      journal = None, refusals = [False, True], calls = []\<rparr>"

definition two_nodes :: WayNodes where
  "two_nodes =
     \<lparr>wn_way_id = 1,
      nodes = [\<lparr>node_index = 0, data_line_number = 10, node_value = ''a''\<rparr>,
               \<lparr>node_index = 1, data_line_number = 11, node_value = ''b''\<rparr>]\<rparr>"

definition one_entry :: NaviInfo where
  "one_entry = \<lparr>ni_way_id = 1, navi_data = [\<lparr>navi_index = 0, data = [170, 187]\<rparr>]\<rparr>"

text \<open>The table \<^verbatim>\<open>way\<close> with the given rows, and the three dependent tables, empty.\<close>

definition ways_db :: "row list \<Rightarrow> sqlite" where
  "ways_db rs =
     \<lparr>tables =
        [''way'' \<mapsto> way_table rs, ''way_nodes'' \<mapsto> way_nodes_table [],
         ''way_data'' \<mapsto> way_data_table [], ''navi_data'' \<mapsto> navi_data_table []],
      journal = None, refusals = [], calls = []\<rparr>"

definition way_7 :: row where
  "way_7 = [SqlInt 7, SqlNull, SqlInt 9, SqlInt 1, SqlInt 3]"

definition blank_Way :: Way where
  "blank_Way = \<lparr>way_id = 0, pre_way_id = 5, next_way_id = 5, speed_min = 5, speed_max = 5\<rparr>"

text \<open>
  A storage with the shards 2 and 10: two rows of \<^verbatim>\<open>way_data\<close> name them, the table
  \<^verbatim>\<open>navi_data_2\<close> has three rows and the table \<^verbatim>\<open>navi_data_10\<close> one.
\<close>

definition two_shards_db :: sqlite where
  "two_shards_db =
     \<lparr>tables =
        [''way_data'' \<mapsto>
           way_data_table
             [[SqlInt 1, SqlBlob [], SqlInt 3, SqlInt 2], [SqlInt 2, SqlBlob [], SqlInt 1, SqlInt 10]],
         ''navi_data_2'' \<mapsto>
           navi_data_table
             [[SqlInt 1, SqlInt 0, SqlBlob []], [SqlInt 1, SqlInt 1, SqlBlob []],
              [SqlInt 1, SqlInt 2, SqlBlob []]],
         ''navi_data_10'' \<mapsto> navi_data_table [[SqlInt 2, SqlInt 0, SqlBlob []]]],
      journal = None, refusals = [], calls = []\<rparr>"

text \<open>The ways 9 and 10, saved one after the other on the initialised storage.\<close>

definition way_9 :: Way where
  "way_9 = \<lparr>way_id = 9, pre_way_id = 0, next_way_id = 10, speed_min = 1, speed_max = 3\<rparr>"

definition way_10 :: Way where
  "way_10 = \<lparr>way_id = 10, pre_way_id = 9, next_way_id = 0, speed_min = 1, speed_max = 3\<rparr>"

definition nine_and_ten :: sqlite where
  "nine_and_ten = snd (SaveWay way_10 (snd (SaveWay way_9 initialised)))"

text \<open>Three rows of navigation data, two of them of the way 1.\<close>

definition navi_table :: table where
  "navi_table =
     navi_data_table
       [[SqlInt 1, SqlInt 0, SqlBlob [1]], [SqlInt 2, SqlInt 0, SqlBlob [2]],
        [SqlInt 1, SqlInt 1, SqlBlob [3]]]"

definition navi_db :: sqlite where
  "navi_db =
     \<lparr>tables = [''navi_data'' \<mapsto> navi_table], journal = None, refusals = [], calls = []\<rparr>"

definition new_Way :: Way where
  "new_Way = \<lparr>way_id = 8, pre_way_id = 7, next_way_id = 0, speed_min = 0, speed_max = 2\<rparr>"

definition changed_Way :: Way where
  "changed_Way = \<lparr>way_id = 7, pre_way_id = 0, next_way_id = 8, speed_min = 1, speed_max = 0\<rparr>"

definition null_way :: row where
  "null_way = [SqlInt 7, SqlNull, SqlNull, SqlNull, SqlNull]"

definition blank_WayData :: WayData where
  "blank_WayData = \<lparr>wd_way_id = 4, raw_data = [1], navi_number = 4, navi_table_id = 4\<rparr>"

definition blank_NaviData :: NaviData where
  "blank_NaviData = \<lparr>navi_index = 9, data = [9]\<rparr>"

definition some_operations :: "operation list" where
  "some_operations =
     [OpSaveWay new_Way, OpSaveWayNodes two_nodes, OpUpdateWaySpeedLimit 8 1 2,
      OpCreateTable kTableSpeedLimit, OpInitDatabase, OpGetNaviTableId 0, OpDeleteWay 8]"

text \<open>
  The three tables of the batches, empty, on a storage that refuses nothing; an
  aggregate of two entries of navigation data; an empty storage that refuses the ninth
  statement it is given, which is the third insert of the seed.
\<close>

definition ready_db :: sqlite where
  "ready_db = batch_db\<lparr>refusals := []\<rparr>"

definition two_entries :: NaviInfo where
  "two_entries =
     \<lparr>ni_way_id = 1,
      navi_data = [\<lparr>navi_index = 0, data = [170, 187]\<rparr>, \<lparr>navi_index = 1, data = []\<rparr>]\<rparr>"


section \<open>Facts about the driver\<close>

lemma execute_journal: "journal (snd (execute q ps s)) = journal s"
  by (simp add: execute_def split: option.splits)

lemma execute_calls:
  "calls (snd (execute q ps s)) = calls s @ [NON_QUERY q ps (fst (execute q ps s))]"
  by (simp add: execute_def split: option.splits)

lemma execute_insert:
  "fst (execute (INSERT_INTO n) r s) \<Longrightarrow>
     tables (snd (execute (INSERT_INTO n) r s)) = insert_rows n [r] (tables s) \<and> tables s n \<noteq> None"
  by (auto simp add: execute_def insert_rows_def split: option.splits if_splits)

lemma insert_rows_Cons:
  "db n \<noteq> None \<Longrightarrow> insert_rows n rs (insert_rows n [r] db) = insert_rows n (r # rs) db"
  by (auto simp add: insert_rows_def split: option.splits)

lemma insert_rows_Nil: "insert_rows n [] db = db"
  by (auto simp add: insert_rows_def split: option.splits)

lemma insert_each_batch:
  "\<exists>k\<le>length rs.
     calls (snd (insert_each n rs s)) =
       calls s @ map (\<lambda>r. NON_QUERY (INSERT_INTO n) r True) (take k rs) @
         (if k < length rs then [NON_QUERY (INSERT_INTO n) (rs ! k) False] else []) \<and>
     fst (insert_each n rs s) = (k = length rs) \<and>
     (k = length rs \<longrightarrow> tables (snd (insert_each n rs s)) = insert_rows n rs (tables s)) \<and>
     journal (snd (insert_each n rs s)) = journal s"
proof (induction rs arbitrary: s)
  case Nil
  show ?case by (simp add: insert_rows_Nil)
next
  case (Cons r rs)
  obtain ok s' where e: "execute (INSERT_INTO n) r s = (ok, s')"
    by (cases "execute (INSERT_INTO n) r s")
  have c: "calls s' = calls s @ [NON_QUERY (INSERT_INTO n) r ok]" and j: "journal s' = journal s"
    using execute_calls [of "INSERT_INTO n" r s] execute_journal [of "INSERT_INTO n" r s] e
    by simp_all
  show ?case
  proof (cases ok)
    case False
    with e c j show ?thesis
      by (intro exI [of _ 0]) simp
  next
    case True
    from Cons.IH [of s'] obtain k where k: "k \<le> length rs"
      "calls (snd (insert_each n rs s')) =
         calls s' @ map (\<lambda>r. NON_QUERY (INSERT_INTO n) r True) (take k rs) @
           (if k < length rs then [NON_QUERY (INSERT_INTO n) (rs ! k) False] else [])"
      "fst (insert_each n rs s') = (k = length rs)"
      "k = length rs \<longrightarrow> tables (snd (insert_each n rs s')) = insert_rows n rs (tables s')"
      "journal (snd (insert_each n rs s')) = journal s'"
      by blast
    have t: "tables s' = insert_rows n [r] (tables s)" "tables s n \<noteq> None"
      using execute_insert [of n r s] e True by simp_all
    have "insert_rows n rs (tables s') = insert_rows n (r # rs) (tables s)"
      using t insert_rows_Cons by simp
    with k e c j True show ?thesis
      by (intro exI [of _ "Suc k"]) simp
  qed
qed

lemma in_transaction:
  assumes "journal s = None"
  shows "transactional_batch n rs s
           (case insert_each n rs (BeginTransaction s) of
              (True, s') \<Rightarrow> (True, CommitTransaction s')
            | (False, s') \<Rightarrow> (False, RollbackTransaction s'))"
proof -
  let ?s0 = "BeginTransaction s"
  obtain ok s' where e: "insert_each n rs ?s0 = (ok, s')"
    by (cases "insert_each n rs ?s0")
  from insert_each_batch [of rs n ?s0] e obtain k where k: "k \<le> length rs"
    "calls s' =
       calls ?s0 @ map (\<lambda>r. NON_QUERY (INSERT_INTO n) r True) (take k rs) @
         (if k < length rs then [NON_QUERY (INSERT_INTO n) (rs ! k) False] else [])"
    "ok = (k = length rs)"
    "k = length rs \<longrightarrow> tables s' = insert_rows n rs (tables ?s0)"
    "journal s' = journal ?s0"
    by auto
  have b: "calls ?s0 = calls s @ [BEGIN]" "tables ?s0 = tables s" "journal ?s0 = Some (tables s)"
    using assms by (simp_all add: BeginTransaction_def)
  show ?thesis
  proof (cases ok)
    case True
    with k b e show ?thesis
      by (simp add: transactional_batch_def batch_calls_def CommitTransaction_def)
  next
    case False
    with k have "k < length rs" by simp
    with False k b e show ?thesis
      unfolding transactional_batch_def
      by (intro bexI [of _ k]) (simp_all add: batch_calls_def RollbackTransaction_def)
  qed
qed

lemma SaveWayNodes_loop_eq:
  "sql cmd = INSERT_INTO ''way_nodes'' \<Longrightarrow> params cmd = [SqlInt wid, a, b, c] \<Longrightarrow>
   SaveWayNodes_loop ns cmd s = insert_each ''way_nodes'' (map (Node_row wid) ns) s"
proof (induction ns arbitrary: cmd a b c s)
  case Nil
  show ?case by simp
next
  case (Cons node ns)
  let ?cmd = "BindParam 4 (SqlText (node_value node))
                (BindParam 3 (SqlInt (data_line_number node))
                  (BindParam 2 (SqlInt (node_index node)) cmd))"
  have p: "sql ?cmd = INSERT_INTO ''way_nodes''" "params ?cmd = Node_row wid node"
    using Cons.prems by (simp_all add: BindParam_def Node_row_def)
  then have "params ?cmd = [SqlInt wid, SqlInt (node_index node),
      SqlInt (data_line_number node), SqlText (node_value node)]"
    by (simp add: Node_row_def)
  from Cons.IH [OF p(1) this] p show ?case
    by (simp add: ExcuteNonQuery_cmd_def split: prod.splits bool.splits)
qed

lemma SaveWayNodes_batch:
  assumes "journal s = None"
  shows "transactional_batch ''way_nodes'' (map (Node_row (wn_way_id wn)) (nodes wn)) s
           (SaveWayNodes wn s)"
proof -
  let ?cmd = "BindParam 1 (SqlInt (wn_way_id wn)) (SQLiteCommand (INSERT_INTO ''way_nodes'') 4)"
  have "sql ?cmd = INSERT_INTO ''way_nodes''"
    and "params ?cmd = [SqlInt (wn_way_id wn), SqlNull, SqlNull, SqlNull]"
    by (simp_all add: BindParam_def SQLiteCommand_def numeral_eq_Suc)
  then have "SaveWayNodes_loop (nodes wn) ?cmd (BeginTransaction s) =
      insert_each ''way_nodes'' (map (Node_row (wn_way_id wn)) (nodes wn)) (BeginTransaction s)"
    by (rule SaveWayNodes_loop_eq)
  with in_transaction [OF assms] show ?thesis
    by (simp add: SaveWayNodes_def)
qed

lemma SaveNaviData_loop_eq:
  "sql cmd = INSERT_INTO ''navi_data'' \<Longrightarrow> params cmd = [SqlInt wid, a, b] \<Longrightarrow>
   SaveNaviData_loop ds cmd s = insert_each ''navi_data'' (map (NaviData_row wid) ds) s"
proof (induction ds arbitrary: cmd a b s)
  case Nil
  show ?case by simp
next
  case (Cons d ds)
  let ?cmd = "BindParam 3 (SqlBlob (data d)) (BindParam 2 (SqlInt (ucast (navi_index d))) cmd)"
  have p: "sql ?cmd = INSERT_INTO ''navi_data''" "params ?cmd = NaviData_row wid d"
    using Cons.prems by (simp_all add: BindParam_def NaviData_row_def)
  then have "params ?cmd = [SqlInt wid, SqlInt (ucast (navi_index d)), SqlBlob (data d)]"
    by (simp add: NaviData_row_def)
  from Cons.IH [OF p(1) this] p show ?case
    by (simp add: ExcuteNonQuery_cmd_def split: prod.splits bool.splits)
qed

lemma SaveNaviData_batch:
  assumes "journal s = None"
  shows "transactional_batch ''navi_data'' (map (NaviData_row (ni_way_id ni)) (navi_data ni)) s
           (SaveNaviData ni s)"
proof -
  let ?cmd = "BindParam 1 (SqlInt (ni_way_id ni)) (SQLiteCommand (INSERT_INTO ''navi_data'') 3)"
  have "sql ?cmd = INSERT_INTO ''navi_data''"
    and "params ?cmd = [SqlInt (ni_way_id ni), SqlNull, SqlNull]"
    by (simp_all add: BindParam_def SQLiteCommand_def numeral_eq_Suc)
  then have "SaveNaviData_loop (navi_data ni) ?cmd (BeginTransaction s) =
      insert_each ''navi_data'' (map (NaviData_row (ni_way_id ni)) (navi_data ni)) (BeginTransaction s)"
    by (rule SaveNaviData_loop_eq)
  with in_transaction [OF assms] show ?thesis
    by (simp add: SaveNaviData_def)
qed

lemma FillTableSpeedLimit_loop_eq:
  "sql cmd = INSERT_INTO ''speed_limit'' \<Longrightarrow> length (params cmd) = 2 \<Longrightarrow>
   FillTableSpeedLimit_loop i cmd s = insert_each ''speed_limit'' (map seed_row [i..<14]) s"
proof (induction i cmd s rule: FillTableSpeedLimit_loop.induct)
  case (1 i cmd s)
  show ?case
  proof (cases "i \<le> 13")
    case False
    then show ?thesis by (simp add: FillTableSpeedLimit_loop.simps)
  next
    case True
    let ?cmd1 = "BindParam 1 (SqlInt (of_nat i)) cmd"
    let ?cmd = "BindParam 2 (SqlInt (of_nat (speed_base + speed_step * (i - 1)))) ?cmd1"
    obtain a b where ab: "params cmd = [a, b]"
      using "1.prems"(2) by (cases "params cmd"; cases "tl (params cmd)") auto
    have p: "sql ?cmd = INSERT_INTO ''speed_limit''" "length (params ?cmd) = 2"
      "params ?cmd = seed_row i"
      using "1.prems" ab by (simp_all add: BindParam_def seed_row_def speed_base_def speed_step_def)
    have u: "[i..<14] = i # [i + 1..<14]"
      using True by (simp add: upt_conv_Cons)
    obtain ok s' where e: "ExcuteNonQuery_cmd ?cmd s = (ok, s')"
      by (cases "ExcuteNonQuery_cmd ?cmd s")
    show ?thesis
    proof (cases ok)
      case False
      with e p True u show ?thesis
        by (subst FillTableSpeedLimit_loop.simps) (simp add: ExcuteNonQuery_cmd_def Let_def)
    next
      case ok: True
      have "FillTableSpeedLimit_loop (i + 1) ?cmd s' =
          insert_each ''speed_limit'' (map seed_row [i + 1..<14]) s'"
        using "1.IH" [OF True refl refl _ _ p(1) p(2), of ok s'] e ok by simp
      with e p True u ok show ?thesis
        by (subst FillTableSpeedLimit_loop.simps) (simp add: ExcuteNonQuery_cmd_def Let_def)
    qed
  qed
qed

lemma FillTableSpeedLimit_batch:
  assumes "journal s = None"
  shows "transactional_batch ''speed_limit'' seed_rows s (FillTableSpeedLimit s)"
proof -
  let ?cmd = "SQLiteCommand (INSERT_INTO ''speed_limit'') 2"
  have "sql ?cmd = INSERT_INTO ''speed_limit''" and "length (params ?cmd) = 2"
    by (simp_all add: SQLiteCommand_def)
  then have "FillTableSpeedLimit_loop 1 ?cmd (BeginTransaction s) =
      insert_each ''speed_limit'' seed_rows (BeginTransaction s)"
    unfolding seed_rows_def by (rule FillTableSpeedLimit_loop_eq)
  with in_transaction [OF assms] show ?thesis
    by (simp add: FillTableSpeedLimit_def)
qed

section \<open>Initialisation\<close>







lemma ExcuteQuery_tables: "tables (snd (ExcuteQuery q s)) = tables s"
  by (simp add: ExcuteQuery_def)

lemma ExcuteQuery_journal: "journal (snd (ExcuteQuery q s)) = journal s"
  by (simp add: ExcuteQuery_def)

lemma IsTableExisting_tables: "tables (snd (IsTableExisting i s)) = tables s"
  using ExcuteQuery_tables [of "COUNT_TABLES_LIKE (kTableNames ! i)" s]
  by (cases "ExcuteQuery (COUNT_TABLES_LIKE (kTableNames ! i)) s")
     (auto simp add: IsTableExisting_def split: option.splits)

lemma IsTableExisting_journal: "journal (snd (IsTableExisting i s)) = journal s"
  using ExcuteQuery_journal [of "COUNT_TABLES_LIKE (kTableNames ! i)" s]
  by (cases "ExcuteQuery (COUNT_TABLES_LIKE (kTableNames ! i)) s")
     (auto simp add: IsTableExisting_def split: option.splits)


lemma outcome_eta:
  "(case r of (Inr True, s') \<Rightarrow> (Inr True, s') | (Inr False, s') \<Rightarrow> (Inr False, s')
    | (Inl e, s') \<Rightarrow> (Inl e, s')) = r"
  by (auto split: prod.splits sum.splits bool.splits)


section \<open>What the operations leave of the table of speed limits\<close>

lemma execute_elsewhere:
  "target q \<noteq> Some n \<Longrightarrow> tables (snd (execute q ps s)) n = tables s n"
  by (cases q) (auto simp add: execute_def split: option.splits)

lemma execute_create_existing:
  "tables s n \<noteq> None \<Longrightarrow> tables (snd (execute (CREATE_TABLE n cols pk) ps s)) = tables s"
  by (auto simp add: execute_def split: option.splits)

lemma execute_kept:
  "target q \<noteq> Some ''speed_limit'' \<Longrightarrow> kept t s \<Longrightarrow> kept t (snd (execute q ps s))"
  by (simp add: kept_def execute_elsewhere execute_journal)

lemma ExcuteQuery_kept: "kept t s \<Longrightarrow> kept t (snd (ExcuteQuery q s))"
  by (simp add: kept_def ExcuteQuery_tables ExcuteQuery_journal)

lemma insert_rows_elsewhere: "n \<noteq> m \<Longrightarrow> insert_rows n rs db m = db m"
  by (simp add: insert_rows_def split: option.splits)

lemma batch_kept:
  "transactional_batch n rs s r \<Longrightarrow> n \<noteq> ''speed_limit'' \<Longrightarrow> kept t s \<Longrightarrow> kept t (snd r)"
  by (auto simp add: transactional_batch_def kept_def insert_rows_elsewhere split: if_splits)

lemma CreateTable_state: "snd (CreateTable i s) = snd (execute (CreateTable_sql i) [] s)"
  by (simp add: CreateTable_def ExcuteNonQuery_def split: prod.splits bool.splits sum.splits)

lemma CreateTable_kept: "kept t s \<Longrightarrow> kept t (snd (CreateTable i s))"
proof (cases "i = kTableSpeedLimit")
  case True
  assume k: "kept t s"
  then have "tables s ''speed_limit'' \<noteq> None" by (simp add: kept_def)
  from execute_create_existing [OF this] k True show ?thesis
    by (simp add: CreateTable_state CreateTable_sql_def kept_def execute_journal)
next
  case False
  assume k: "kept t s"
  from False have "target (CreateTable_sql i) \<noteq> Some ''speed_limit''"
    by (simp add: CreateTable_sql_def)
  from execute_kept [OF this k] show ?thesis
    by (simp add: CreateTable_state)
qed

lemma IsTableExisting_kept: "kept t s \<Longrightarrow> kept t (snd (IsTableExisting i s))"
  by (simp add: kept_def IsTableExisting_tables IsTableExisting_journal)

lemma sql_BindParam: "sql (BindParam i v cmd) = sql cmd"
  by (simp add: BindParam_def)

lemma sql_SQLiteCommand: "sql (SQLiteCommand q n) = q"
  by (simp add: SQLiteCommand_def)

lemma ExcuteNonQuery_cmd_kept:
  "target (sql cmd) \<noteq> Some ''speed_limit'' \<Longrightarrow> kept t s \<Longrightarrow> kept t (snd (ExcuteNonQuery_cmd cmd s))"
  by (simp add: ExcuteNonQuery_cmd_def execute_kept)

lemma SaveWay_kept: "kept t s \<Longrightarrow> kept t (snd (SaveWay w s))"
  by (simp add: SaveWay_def Let_def ExcuteNonQuery_cmd_kept sql_BindParam sql_SQLiteCommand)

lemma SaveWayData_kept: "kept t s \<Longrightarrow> kept t (snd (SaveWayData w s))"
  by (simp add: SaveWayData_def Let_def ExcuteNonQuery_cmd_kept sql_BindParam sql_SQLiteCommand)

lemma UpdateWay_kept: "kept t s \<Longrightarrow> kept t (snd (UpdateWay wid w s))"
  by (simp add: UpdateWay_def Let_def ExcuteNonQuery_cmd_kept sql_BindParam sql_SQLiteCommand)

lemma UpdateWaySpeedLimit_kept: "kept t s \<Longrightarrow> kept t (snd (UpdateWaySpeedLimit wid a b s))"
  by (simp add: UpdateWaySpeedLimit_def Let_def ExcuteNonQuery_cmd_kept sql_BindParam
      sql_SQLiteCommand)

lemma UpdateWayData_kept: "kept t s \<Longrightarrow> kept t (snd (UpdateWayData wid w s))"
  by (simp add: UpdateWayData_def Let_def ExcuteNonQuery_cmd_kept sql_BindParam sql_SQLiteCommand)

lemma DeleteWayNodes_kept: "kept t s \<Longrightarrow> kept t (snd (DeleteWayNodes wid s))"
  by (simp add: DeleteWayNodes_def Let_def ExcuteNonQuery_cmd_kept sql_BindParam sql_SQLiteCommand)

lemma DeleteWayData_kept: "kept t s \<Longrightarrow> kept t (snd (DeleteWayData wid s))"
  by (simp add: DeleteWayData_def Let_def ExcuteNonQuery_cmd_kept sql_BindParam sql_SQLiteCommand)

lemma DeleteNaviData_kept: "kept t s \<Longrightarrow> kept t (snd (DeleteNaviData wid s))"
  by (simp add: DeleteNaviData_def Let_def ExcuteNonQuery_cmd_kept sql_BindParam sql_SQLiteCommand)

lemma SaveWayNodes_kept: "kept t s \<Longrightarrow> kept t (snd (SaveWayNodes wn s))"
  using SaveWayNodes_batch [of s wn] batch_kept [of "''way_nodes''" _ s "SaveWayNodes wn s" t]
  by (simp add: kept_def)

lemma SaveNaviData_kept: "kept t s \<Longrightarrow> kept t (snd (SaveNaviData ni s))"
  using SaveNaviData_batch [of s ni] batch_kept [of "''navi_data''" _ s "SaveNaviData ni s" t]
  by (simp add: kept_def)

lemma UpdateWayNodes_kept:
  assumes "kept t s"
  shows "kept t (snd (UpdateWayNodes wid wn s))"
proof -
  let ?cmd = "BindParam 1 (SqlInt wid) (SQLiteCommand (DELETE_FROM ''way_nodes'' 0) 1)"
  obtain ok s' where e: "ExcuteNonQuery_cmd ?cmd s = (ok, s')"
    by (cases "ExcuteNonQuery_cmd ?cmd s")
  have "kept t (snd (ExcuteNonQuery_cmd ?cmd s))"
    using assms by (simp add: ExcuteNonQuery_cmd_kept sql_BindParam sql_SQLiteCommand)
  with e have "kept t s'" by simp
  with e SaveWayNodes_kept [of t s' wn] show ?thesis
    by (cases ok) (simp_all add: UpdateWayNodes_def)
qed

lemma UpdateNaviData_kept:
  assumes "kept t s"
  shows "kept t (snd (UpdateNaviData wid ni s))"
proof -
  let ?cmd = "BindParam 1 (SqlInt wid) (SQLiteCommand (DELETE_FROM ''navi_data'' 0) 1)"
  obtain ok s' where e: "ExcuteNonQuery_cmd ?cmd s = (ok, s')"
    by (cases "ExcuteNonQuery_cmd ?cmd s")
  have "kept t (snd (ExcuteNonQuery_cmd ?cmd s))"
    using assms by (simp add: ExcuteNonQuery_cmd_kept sql_BindParam sql_SQLiteCommand)
  with e have "kept t s'" by simp
  with e SaveNaviData_kept [of t s' ni] show ?thesis
    by (cases ok) (simp_all add: UpdateNaviData_def)
qed

lemma DeleteWay_kept:
  assumes "kept t s"
  shows "kept t (snd (DeleteWay wid s))"
proof -
  let ?cmd = "BindParam 1 (SqlInt wid) (SQLiteCommand (DELETE_FROM ''way'' 0) 1)"
  obtain b1 s1 where e1: "ExcuteNonQuery_cmd ?cmd s = (b1, s1)"
    by (cases "ExcuteNonQuery_cmd ?cmd s")
  obtain b2 s2 where e2: "DeleteWayNodes wid s1 = (b2, s2)"
    by (cases "DeleteWayNodes wid s1")
  obtain b3 s3 where e3: "DeleteWayData wid s2 = (b3, s3)"
    by (cases "DeleteWayData wid s2")
  obtain b4 s4 where e4: "DeleteNaviData wid s3 = (b4, s4)"
    by (cases "DeleteNaviData wid s3")
  have "kept t (snd (ExcuteNonQuery_cmd ?cmd s))"
    using assms by (simp add: ExcuteNonQuery_cmd_kept sql_BindParam sql_SQLiteCommand)
  with e1 have k1: "kept t s1" by simp
  with e2 DeleteWayNodes_kept [of t s1 wid] have k2: "kept t s2" by simp
  with e3 DeleteWayData_kept [of t s2 wid] have k3: "kept t s3" by simp
  with e4 DeleteNaviData_kept [of t s3 wid] have k4: "kept t s4" by simp
  from e1 e2 e3 e4 k1 k2 k3 k4 show ?thesis
    by (cases b1; cases b2; cases b3; cases b4) (simp_all add: DeleteWay_def)
qed

lemma QueryNaviData_state:
  "snd (snd (QueryNaviDataWithWayId wid out s)) =
   snd (ExcuteQuery (SELECT_WHERE ''navi_data'' (Some [1, 2]) [(0, SqlInt wid)]) s)"
  by (simp add: QueryNaviDataWithWayId_def split: prod.splits option.splits)

lemma QueryNaviData_index_state:
  "snd (snd (QueryNaviDataWithWayId_index wid idx out s)) =
   snd (ExcuteQuery
          (SELECT_WHERE ''navi_data'' (Some [2]) [(0, SqlInt wid), (1, SqlInt (ucast idx))]) s)"
  by (simp add: QueryNaviDataWithWayId_index_def split: prod.splits option.splits)

lemma QueryWayNodes_state:
  "snd (snd (QueryWayNodesWithWayId wid out s)) =
   snd (ExcuteQuery (SELECT_WHERE ''way_nodes'' None [(0, SqlInt wid)]) s)"
  by (simp add: QueryWayNodesWithWayId_def split: prod.splits option.splits)

lemma QueryWay_state:
  "snd (snd (QueryWayWithWayId wid out s)) =
   snd (ExcuteQuery (SELECT_WHERE ''way'' None [(0, SqlInt wid)]) s)"
  by (simp add: QueryWayWithWayId_def split: prod.splits option.splits)

lemma QueryWayData_state:
  "snd (snd (QueryWayDataWithWayId wid out s)) =
   snd (ExcuteQuery (SELECT_WHERE ''way_data'' None [(0, SqlInt wid)]) s)"
  by (simp add: QueryWayDataWithWayId_def split: prod.splits option.splits)

lemma CreateNewWayId_state:
  "snd (snd (CreateNewWayId out s)) = snd (ExcuteQuery (SELECT_MAX ''way'' 0) s)"
  by (simp add: CreateNewWayId_def split: prod.splits option.splits)

lemma GetNaviTableId_kept:
  assumes "kept t s"
  shows "kept t (snd (snd (GetNaviTableId out s)))"
proof -
  obtain r1 s1 where e1: "ExcuteQuery (SELECT_MAX ''way_data'' 3) s = (r1, s1)"
    by (cases "ExcuteQuery (SELECT_MAX ''way_data'' 3) s")
  with ExcuteQuery_kept [OF assms, of "SELECT_MAX ''way_data'' 3"] have k1: "kept t s1"
    by simp
  show ?thesis
  proof (cases r1)
    case None
    with e1 k1 show ?thesis by (simp add: GetNaviTableId_def)
  next
    case (Some reader1)
    obtain res1 cur where f: "fold (\<lambda>r (res, cur).
        (True, if GetDataType r 0 = kSqliteDataTypeNull then 0 else GetUint64Value r 0))
        reader1 (False, 0) = (res1, cur)"
      by (cases "fold (\<lambda>r (res, cur).
        (True, if GetDataType r 0 = kSqliteDataTypeNull then 0 else GetUint64Value r 0))
        reader1 (False, 0 :: 64 word)")
    let ?q = "SELECT_COUNT (''navi_data_'' @ to_string (unat cur))"
    obtain r2 s2 where e2: "ExcuteQuery ?q s1 = (r2, s2)"
      by (cases "ExcuteQuery ?q s1")
    with ExcuteQuery_kept [OF k1, of ?q] have "kept t s2"
      by simp
    with Some e1 e2 f show ?thesis
      by (simp add: GetNaviTableId_def split: option.splits prod.splits)
  qed
qed

lemma CreateTable_existing:
  "tables s ''speed_limit'' \<noteq> None \<Longrightarrow> fst (CreateTable kTableSpeedLimit s) = Inr False"
  by (auto simp add: CreateTable_def CreateTable_sql_def ExcuteNonQuery_def execute_def at_def
      kTableNames_def kTableSpeedLimit_def split: option.splits)

lemma InitDatabase_kept:
  assumes "kept t s"
  shows "kept t (snd (InitDatabase s))"
proof -
  obtain b s0 where e: "IsTableExisting kTableWay s = (b, s0)"
    by (cases "IsTableExisting kTableWay s")
  with IsTableExisting_kept [OF assms, of kTableWay] have k0: "kept t s0"
    by simp
  obtain r s1 where c: "CreateTable kTableSpeedLimit s0 = (r, s1)"
    by (cases "CreateTable kTableSpeedLimit s0")
  with CreateTable_kept [OF k0, of kTableSpeedLimit] have k1: "kept t s1"
    by simp
  from k0 have "tables s0 ''speed_limit'' \<noteq> None"
    by (simp add: kept_def)
  from CreateTable_existing [OF this] c have "r = Inr False"
    by simp
  with e c k0 k1 show ?thesis
    by (cases b) (simp_all add: InitDatabase_def and_then_def)
qed

lemma after_kept: "kept t s \<Longrightarrow> kept t (after op s)"
proof (cases op)
  case (OpGetNaviTableId out)
  assume "kept t s"
  with OpGetNaviTableId show ?thesis by (simp add: GetNaviTableId_kept)
qed (simp_all add: IsTableExisting_kept CreateTable_kept InitDatabase_kept SaveWay_kept
    SaveWayNodes_kept SaveWayData_kept SaveNaviData_kept QueryNaviData_state
    QueryNaviData_index_state QueryWayNodes_state QueryWay_state QueryWayData_state
    UpdateWay_kept UpdateWaySpeedLimit_kept UpdateWayNodes_kept UpdateWayData_kept
    UpdateNaviData_kept DeleteWay_kept DeleteWayNodes_kept DeleteWayData_kept DeleteNaviData_kept
    CreateNewWayId_state ExcuteQuery_kept)

lemma fold_after_kept: "kept t s \<Longrightarrow> kept t (fold after ops s)"
  by (induction ops arbitrary: s) (simp_all add: after_kept)


section \<open>The flag and the output of the queries\<close>

lemma fold_flag:
  "fold (\<lambda>r (res, x). (True, f r x)) rs (b, x) = (b \<or> rs \<noteq> [], fold f rs x)"
  by (induction rs arbitrary: b x) simp_all

lemma fold_flag_const:
  "fold (\<lambda>r (res, x). (True, g r)) rs (b, x) = (b \<or> rs \<noteq> [], fold (\<lambda>r x. g r) rs x)"
  using fold_flag [of "\<lambda>r x. g r"] by simp

lemma fold_append_each: "fold (\<lambda>r xs. xs @ [g r]) rs xs = xs @ map g rs"
  by (induction rs arbitrary: xs) simp_all

lemma QueryWay_flag:
  "fst (QueryWayWithWayId wid out s) = found (SELECT_WHERE ''way'' None [(0, SqlInt wid)]) s"
  and QueryWay_not_found:
  "\<not> fst (QueryWayWithWayId wid out s) \<Longrightarrow> fst (snd (QueryWayWithWayId wid out s)) = out"
  by (cases "ExcuteQuery (SELECT_WHERE ''way'' None [(0, SqlInt wid)]) s";
      auto simp add: QueryWayWithWayId_def found_def fold_flag split: option.splits)+

lemma QueryWayNodes_flag:
  "fst (QueryWayNodesWithWayId wid out s) =
     found (SELECT_WHERE ''way_nodes'' None [(0, SqlInt wid)]) s"
  and QueryWayNodes_not_found:
  "\<not> fst (QueryWayNodesWithWayId wid out s) \<Longrightarrow>
     fst (snd (QueryWayNodesWithWayId wid out s)) = out"
  by (cases "ExcuteQuery (SELECT_WHERE ''way_nodes'' None [(0, SqlInt wid)]) s";
      auto simp add: QueryWayNodesWithWayId_def found_def fold_flag split: option.splits)+

lemma QueryWayData_flag:
  "fst (QueryWayDataWithWayId wid out s) =
     found (SELECT_WHERE ''way_data'' None [(0, SqlInt wid)]) s"
  and QueryWayData_not_found:
  "\<not> fst (QueryWayDataWithWayId wid out s) \<Longrightarrow>
     fst (snd (QueryWayDataWithWayId wid out s)) = out"
  by (cases "ExcuteQuery (SELECT_WHERE ''way_data'' None [(0, SqlInt wid)]) s";
      auto simp add: QueryWayDataWithWayId_def found_def fold_flag split: option.splits)+

lemma QueryNaviData_flag:
  "fst (QueryNaviDataWithWayId wid out s) =
     found (SELECT_WHERE ''navi_data'' (Some [1, 2]) [(0, SqlInt wid)]) s"
  and QueryNaviData_not_found:
  "\<not> fst (QueryNaviDataWithWayId wid out s) \<Longrightarrow>
     fst (snd (QueryNaviDataWithWayId wid out s)) = out"
  by (cases "ExcuteQuery (SELECT_WHERE ''navi_data'' (Some [1, 2]) [(0, SqlInt wid)]) s";
      auto simp add: QueryNaviDataWithWayId_def found_def fold_flag split: option.splits)+

lemma QueryNaviData_index_flag:
  "fst (QueryNaviDataWithWayId_index wid idx out s) =
     found (SELECT_WHERE ''navi_data'' (Some [2]) [(0, SqlInt wid), (1, SqlInt (ucast idx))]) s"
  and QueryNaviData_index_not_found:
  "\<not> fst (QueryNaviDataWithWayId_index wid idx out s) \<Longrightarrow>
     fst (snd (QueryNaviDataWithWayId_index wid idx out s)) = out"
  by (cases "ExcuteQuery
        (SELECT_WHERE ''navi_data'' (Some [2]) [(0, SqlInt wid), (1, SqlInt (ucast idx))]) s";
      auto simp add: QueryNaviDataWithWayId_index_def found_def fold_flag split: option.splits)+

lemma QueryNaviData_appends:
  "fst (snd (QueryNaviDataWithWayId wid out s)) =
     out @ (case fst (ExcuteQuery (SELECT_WHERE ''navi_data'' (Some [1, 2]) [(0, SqlInt wid)]) s) of
              None \<Rightarrow> []
            | Some rs \<Rightarrow> map read_NaviData rs)"
  by (cases "ExcuteQuery (SELECT_WHERE ''navi_data'' (Some [1, 2]) [(0, SqlInt wid)]) s")
     (auto simp add: QueryNaviDataWithWayId_def fold_flag fold_append_each split: option.splits)

section \<open>Ways written and read back; allocation\<close>

lemma SaveWay_execute: "SaveWay way s = execute (INSERT_INTO ''way'') (Way_row way) s"
  by (simp add: SaveWay_def Way_row_def ExcuteNonQuery_cmd_def BindParam_def SQLiteCommand_def
      Let_def numeral_eq_Suc)

lemma UpdateWay_execute:
  "UpdateWay wid way s =
     execute (UPDATE_SET ''way'' [1, 2, 3, 4] 0) (tl (Way_row way) @ [SqlInt wid]) s"
  by (simp add: UpdateWay_def Way_row_def ExcuteNonQuery_cmd_def BindParam_def SQLiteCommand_def
      Let_def numeral_eq_Suc)

lemma ExcuteQuery_result: "\<not> refused s \<Longrightarrow> fst (ExcuteQuery q s) = run_query q (tables s)"
  by (simp add: ExcuteQuery_def)

lemma project_all: "map (project None) rs = rs"
  by (induction rs) (simp_all add: project_def)

lemma satisfies_one: "satisfies [(c, v)] = (\<lambda>r. sql_eq (column r c) v)"
  by (rule ext) (simp add: satisfies_def)

lemma QueryWay_rows:
  assumes "\<not> refused s" and "tables s ''way'' = Some t"
  shows "fst (QueryWayWithWayId wid out s) =
           (filter (\<lambda>r. sql_eq (column r 0) (SqlInt wid)) (rows t) \<noteq> [])"
    and "fst (snd (QueryWayWithWayId wid out s)) =
           fold read_Way (filter (\<lambda>r. sql_eq (column r 0) (SqlInt wid)) (rows t)) out"
proof -
  let ?q = "SELECT_WHERE ''way'' None [(0, SqlInt wid)]"
  obtain r s' where e: "ExcuteQuery ?q s = (r, s')"
    by (cases "ExcuteQuery ?q s")
  with ExcuteQuery_result [OF assms(1), of ?q] assms(2)
  have r: "r = Some (filter (\<lambda>r. sql_eq (column r 0) (SqlInt wid)) (rows t))"
    by (simp add: project_all satisfies_one)
  from e r show "fst (QueryWayWithWayId wid out s) =
           (filter (\<lambda>r. sql_eq (column r 0) (SqlInt wid)) (rows t) \<noteq> [])"
    by (simp add: QueryWayWithWayId_def fold_flag)
  from e r show "fst (snd (QueryWayWithWayId wid out s)) =
           fold read_Way (filter (\<lambda>r. sql_eq (column r 0) (SqlInt wid)) (rows t)) out"
    by (simp add: QueryWayWithWayId_def fold_flag)
qed

lemma ucast_8_64_8: "ucast (ucast (x :: 8 word) :: 64 word) = x"
  by (simp add: ucast_up_ucast_id is_up)

lemma read_Way_row:
  "way_id (read_Way (Way_row way) w) = way_id way"
  "pre_way_id (read_Way (Way_row way) w) = pre_way_id way"
  "next_way_id (read_Way (Way_row way) w) = next_way_id way"
  "speed_min (read_Way (Way_row way) w) = speed_min way"
  "speed_max (read_Way (Way_row way) w) = speed_max way"
  by (simp_all add: read_Way_def Way_row_def column_def ucast_8_64_8)

lemma SaveWay_then_Query:
  assumes "fst (SaveWay way s)" and "\<not> refused (snd (SaveWay way s))"
  shows "fst (QueryWayWithWayId (way_id way) out (snd (SaveWay way s)))"
    and "\<exists>w. fst (snd (QueryWayWithWayId (way_id way) out (snd (SaveWay way s)))) =
           read_Way (Way_row way) w"
proof -
  let ?s1 = "snd (SaveWay way s)"
  from assms(1) execute_insert [of "''way''" "Way_row way" s]
  have t: "tables ?s1 = insert_rows ''way'' [Way_row way] (tables s)" "tables s ''way'' \<noteq> None"
    by (simp_all add: SaveWay_execute)
  then obtain t0 where t0: "tables s ''way'' = Some t0" by auto
  with t have t1: "tables ?s1 ''way'' = Some (t0\<lparr>rows := rows t0 @ [Way_row way]\<rparr>)"
    by (simp add: insert_rows_def)
  have m: "sql_eq (column (Way_row way) 0) (SqlInt (way_id way))"
    by (simp add: Way_row_def column_def sql_eq_def)
  from QueryWay_rows(1) [OF assms(2) t1, of "way_id way" out] m
  show "fst (QueryWayWithWayId (way_id way) out ?s1)"
    by simp
  from QueryWay_rows(2) [OF assms(2) t1, of "way_id way" out] m
  show "\<exists>w. fst (snd (QueryWayWithWayId (way_id way) out ?s1)) = read_Way (Way_row way) w"
    by auto
qed

lemma ExcuteQuery_refusals: "refusals (snd (ExcuteQuery q s)) = tl (refusals s)"
  by (simp add: ExcuteQuery_def)

lemma execute_update:
  "fst (execute (UPDATE_SET n cs w) ps s) \<Longrightarrow> tables s n = Some t \<Longrightarrow>
   tables (snd (execute (UPDATE_SET n cs w) ps s)) n =
     Some (t\<lparr>rows :=
       map (\<lambda>r. if sql_eq (column r w) (column ps (length cs)) then assign cs ps r else r)
         (rows t)\<rparr>)"
  by (auto simp add: execute_def split: if_splits)

lemma assign_Way:
  assumes "length r = 5"
  shows "assign [1, 2, 3, 4] (tl (Way_row way) @ [v]) r = r ! 0 # tl (Way_row way)"
proof -
  from assms obtain a b c d e where "r = [a, b, c, d, e]"
    by (auto simp add: length_Suc_conv numeral_eq_Suc)
  then show ?thesis
    by (simp add: assign_def Way_row_def)
qed

lemma assign_Way_Suc:
  "length r = 5 \<Longrightarrow> assign [Suc 0, 2, 3, 4] (tl (Way_row way) @ [v]) r = r ! 0 # tl (Way_row way)"
  using assign_Way [of r way v] by simp

lemma read_Way_tail:
  "pre_way_id (read_Way (x # tl (Way_row way)) w) = pre_way_id way"
  "next_way_id (read_Way (x # tl (Way_row way)) w) = next_way_id way"
  "speed_min (read_Way (x # tl (Way_row way)) w) = speed_min way"
  "speed_max (read_Way (x # tl (Way_row way)) w) = speed_max way"
  by (simp_all add: read_Way_def Way_row_def column_def ucast_8_64_8)

lemma fold_last: "rs \<noteq> [] \<Longrightarrow> fold f rs x = f (last rs) (fold f (butlast rs) x)"
  by (induction rs arbitrary: x) auto

lemma UpdateWay_then_Query:
  assumes u: "fst (UpdateWay wid way s)" and nr: "\<not> refused (snd (UpdateWay wid way s))"
    and t: "tables s ''way'' = Some t" and wf: "list_all (\<lambda>r. length r = 5) (rows t)"
    and q: "fst (QueryWayWithWayId wid out (snd (UpdateWay wid way s)))"
  shows "\<exists>x w. fst (snd (QueryWayWithWayId wid out (snd (UpdateWay wid way s)))) =
           read_Way (x # tl (Way_row way)) w"
proof -
  let ?s1 = "snd (UpdateWay wid way s)"
  let ?ps = "tl (Way_row way) @ [SqlInt wid]"
  let ?m = "\<lambda>r. sql_eq (column r 0) (SqlInt wid)"
  let ?u = "\<lambda>r. if ?m r then assign [1, 2, 3, 4] ?ps r else r"
  have c: "column ?ps (length [1, 2, 3, 4 :: nat]) = SqlInt wid"
    by (simp add: Way_row_def column_def)
  from u have "fst (execute (UPDATE_SET ''way'' [1, 2, 3, 4] 0) ?ps s)"
    by (simp add: UpdateWay_execute)
  from execute_update [OF this t]
  have t1: "tables ?s1 ''way'' = Some (t\<lparr>rows := map ?u (rows t)\<rparr>)"
    by (simp only: c UpdateWay_execute)
  have eq: "filter ?m (map ?u rs) = map (\<lambda>r. r ! 0 # tl (Way_row way)) (filter ?m rs)"
    if "list_all (\<lambda>r. length r = 5) rs" for rs
    using that
  proof (induction rs)
    case Nil
    show ?case by simp
  next
    case (Cons r rs)
    then have l: "length r = 5" by simp
    then have "column (r ! 0 # tl (Way_row way)) 0 = column r 0"
      by (simp add: column_def)
    with Cons l show ?case
      by (simp add: assign_Way_Suc)
  qed
  let ?ms = "map (\<lambda>r. r ! 0 # tl (Way_row way)) (filter ?m (rows t))"
  from QueryWay_rows [OF nr t1, of wid out] eq [OF wf]
  have r: "fst (QueryWayWithWayId wid out ?s1) = (?ms \<noteq> [])"
    "fst (snd (QueryWayWithWayId wid out ?s1)) = fold read_Way ?ms out"
    by simp_all
  with q have ne: "?ms \<noteq> []" by simp
  then have "last ?ms = (last (filter ?m (rows t))) ! 0 # tl (Way_row way)"
    by (simp add: last_map)
  with fold_last [OF ne, of read_Way out] r(2) show ?thesis
    by auto
qed

lemma select_max_rows:
  "fst (ExcuteQuery (SELECT_MAX n c) s) = Some rs \<Longrightarrow> \<exists>v. rs = [[v]]"
  by (auto simp add: ExcuteQuery_def split: if_splits option.splits)

lemma CreateNewWayId_flag:
  "fst (CreateNewWayId out s) = (fst (ExcuteQuery (SELECT_MAX ''way'' 0) s) \<noteq> None)"
proof (cases "ExcuteQuery (SELECT_MAX ''way'' 0) s")
  case (Pair r s')
  show ?thesis
  proof (cases r)
    case None
    with Pair show ?thesis by (simp add: CreateNewWayId_def)
  next
    case (Some rs)
    with Pair select_max_rows [of "''way''" 0 s rs] obtain v where "rs = [[v]]"
      by auto
    with Pair Some show ?thesis by (simp add: CreateNewWayId_def)
  qed
qed

lemma CreateNewWayId_failed:
  "\<not> fst (CreateNewWayId out s) \<Longrightarrow> fst (snd (CreateNewWayId out s)) = out"
  by (cases "ExcuteQuery (SELECT_MAX ''way'' 0) s")
     (auto simp add: CreateNewWayId_def fold_flag_const split: option.splits)

section \<open>The seed\<close>

lemma and_then_True:
  "fst (and_then f g s) = Inr True \<Longrightarrow> fst (f s) = Inr True \<and> and_then f g s = g (snd (f s))"
  by (cases "f s") (auto simp add: and_then_def split: sum.splits bool.splits)

lemma CreateTable_journal: "journal (snd (CreateTable i s)) = journal s"
  by (simp add: CreateTable_state execute_journal)

lemma CreateTable_created:
  assumes "fst (CreateTable kTableSpeedLimit s) = Inr True"
  shows "tables (snd (CreateTable kTableSpeedLimit s)) ''speed_limit'' =
           Some (speed_limit_table [])"
  using assms
  by (auto simp add: CreateTable_def CreateTable_sql_def ExcuteNonQuery_def execute_def at_def
      kTableNames_def kTableSpeedLimit_def speed_limit_table_def split: option.splits if_splits)

lemma FillTableSpeedLimit_filled:
  assumes "kept t s" and "fst (FillTableSpeedLimit s)"
  shows "kept (t\<lparr>rows := rows t @ seed_rows\<rparr>) (snd (FillTableSpeedLimit s))"
proof -
  from assms(1) have "journal s = None" by (simp add: kept_def)
  from FillTableSpeedLimit_batch [OF this] assms show ?thesis
    by (auto simp add: transactional_batch_def kept_def insert_rows_def)
qed

lemma InitDatabase_seeded:
  assumes j: "journal s = None" and e: "\<not> fst (IsTableExisting kTableWay s)"
    and i: "fst (InitDatabase s) = Inr True"
  shows "kept (speed_limit_table seed_rows)
           (snd (InitDatabase s))"
proof -
  let ?t = "speed_limit_table []"
  let ?g5 = "returning FillTableSpeedLimit"
  let ?g4 = "and_then (CreateTable kTableNaviData) ?g5"
  let ?g3 = "and_then (CreateTable kTableWayData) ?g4"
  let ?g2 = "and_then (CreateTable kTableWayNodes) ?g3"
  let ?g1 = "and_then (CreateTable kTableWay) ?g2"
  let ?g0 = "and_then (CreateTable kTableSpeedLimit) ?g1"
  let ?s0 = "snd (IsTableExisting kTableWay s)"
  let ?s1 = "snd (CreateTable kTableSpeedLimit ?s0)"
  let ?s2 = "snd (CreateTable kTableWay ?s1)"
  let ?s3 = "snd (CreateTable kTableWayNodes ?s2)"
  let ?s4 = "snd (CreateTable kTableWayData ?s3)"
  let ?s5 = "snd (CreateTable kTableNaviData ?s4)"
  from e have d: "InitDatabase s = ?g0 ?s0"
    by (cases "IsTableExisting kTableWay s") (simp add: InitDatabase_def outcome_eta)
  with i have h0: "fst (?g0 ?s0) = Inr True" by simp
  note a0 = and_then_True [OF h0]
  from a0 have c0: "fst (CreateTable kTableSpeedLimit ?s0) = Inr True" ..
  from a0 have e1: "?g0 ?s0 = ?g1 ?s1" ..
  from h0 have h1: "fst (?g1 ?s1) = Inr True" unfolding e1 .
  note a1 = and_then_True [OF h1]
  from a1 have e2: "?g1 ?s1 = ?g2 ?s2" ..
  from h1 have h2: "fst (?g2 ?s2) = Inr True" unfolding e2 .
  note a2 = and_then_True [OF h2]
  from a2 have e3: "?g2 ?s2 = ?g3 ?s3" ..
  from h2 have h3: "fst (?g3 ?s3) = Inr True" unfolding e3 .
  note a3 = and_then_True [OF h3]
  from a3 have e4: "?g3 ?s3 = ?g4 ?s4" ..
  from h3 have h4: "fst (?g4 ?s4) = Inr True" unfolding e4 .
  note a4 = and_then_True [OF h4]
  from a4 have e5: "?g4 ?s4 = ?g5 ?s5" ..
  from h4 have h5: "fst (?g5 ?s5) = Inr True" unfolding e5 .
  from h5 have f: "fst (FillTableSpeedLimit ?s5)"
    by (simp add: returning_def split: prod.splits)
  have "journal ?s1 = None"
    using j by (simp add: CreateTable_journal IsTableExisting_journal)
  with CreateTable_created [OF c0] have "kept ?t ?s1"
    by (simp add: kept_def)
  then have "kept ?t ?s5"
    by (simp add: CreateTable_kept)
  from FillTableSpeedLimit_filled [OF this f]
  have "kept (speed_limit_table seed_rows)
      (snd (FillTableSpeedLimit ?s5))"
    by (simp add: speed_limit_table_def)
  moreover have "snd (InitDatabase s) = snd (FillTableSpeedLimit ?s5)"
    unfolding d e1 e2 e3 e4 e5 by (simp add: returning_def split: prod.splits)
  ultimately show ?thesis by simp
qed

lemma seed_rows_explicit:
  "seed_rows =
     [[SqlInt 1, SqlInt 30], [SqlInt 2, SqlInt 40], [SqlInt 3, SqlInt 50],
      [SqlInt 4, SqlInt 60], [SqlInt 5, SqlInt 70], [SqlInt 6, SqlInt 80],
      [SqlInt 7, SqlInt 90], [SqlInt 8, SqlInt 100], [SqlInt 9, SqlInt 110],
      [SqlInt 10, SqlInt 120], [SqlInt 11, SqlInt 130], [SqlInt 12, SqlInt 140],
      [SqlInt 13, SqlInt 150]]"
  by (simp add: seed_rows_def seed_row_def upt_rec)

lemma QueryWay_null_speed:
  assumes "\<not> refused s" and "tables s ''way'' = Some t" and "rows t = rs @ [r]"
    and "sql_eq (column r 0) (SqlInt wid)" and "column r 3 = SqlNull" and "column r 4 = SqlNull"
  shows "fst (QueryWayWithWayId wid out s)"
    and "speed_min (fst (snd (QueryWayWithWayId wid out s))) = 0"
    and "speed_max (fst (snd (QueryWayWithWayId wid out s))) = 0"
  using QueryWay_rows [OF assms(1,2), of wid out] assms(3-)
  by (simp_all add: read_Way_def)

section \<open>Table indices\<close>

text \<open>
  A table that \<^verbatim>\<open>CreateTable\<close> has created is found by \<^verbatim>\<open>IsTableExisting\<close> when
  its query is executed. For an index that is no table, \<^verbatim>\<open>IsTableExisting\<close> returns
  false and leaves the connection alone, while \<^verbatim>\<open>CreateTable\<close> never returns false:
  it returns true or throws.
\<close>

lemma CreateTable_then_IsTableExisting:
  assumes "i < kMaxNumberOfTables" and "fst (CreateTable i s) = Inr True"
    and "\<not> refused (snd (CreateTable i s))"
  shows "fst (IsTableExisting i (snd (CreateTable i s)))"
proof -
  from assms(1) have "i = 0 \<or> i = 1 \<or> i = 2 \<or> i = 3 \<or> i = 4"
    by (auto simp add: kMaxNumberOfTables_def)
  with assms(2) have "tables (snd (CreateTable i s)) (kTableNames ! i) \<noteq> None"
    by (auto simp add: CreateTable_def CreateTable_sql_def ExcuteNonQuery_def execute_def
        kTableNames_def kTableSpeedLimit_def kTableWay_def kTableWayNodes_def kTableWayData_def
        kTableNaviData_def split: if_splits option.splits prod.splits sum.splits)
  with assms(1,3) ExcuteQuery_result [OF assms(3), of "COUNT_TABLES_LIKE (kTableNames ! i)"]
  show ?thesis
    by (cases "ExcuteQuery (COUNT_TABLES_LIKE (kTableNames ! i)) (snd (CreateTable i s))")
       (auto simp add: IsTableExisting_def column_def)
qed

lemma IsTableExisting_out_of_range:
  "kMaxNumberOfTables \<le> i \<Longrightarrow> IsTableExisting i s = (False, s)"
  by (simp add: IsTableExisting_def)

lemma CreateTable_out_of_range:
  "kMaxNumberOfTables \<le> i \<Longrightarrow>
   fst (CreateTable i s) = (if refused s then Inl out_of_range else Inr True)"
  by (simp add: CreateTable_def CreateTable_sql_def ExcuteNonQuery_def execute_def at_def
      kTableNames_def kMaxNumberOfTables_def kTableSpeedLimit_def kTableWay_def
      kTableWayNodes_def kTableWayData_def kTableNaviData_def)

section \<open>Batches against the storage\<close>

lemma accepts_Suc:
  "refusals s' = tl (refusals s) \<Longrightarrow> accepts (Suc n) s = (\<not> refused s \<and> accepts n s')"
  by (cases "refusals s") (auto simp add: accepts_def refused_def)

lemma accepts_0: "accepts 0 s"
  by (simp add: accepts_def)

lemma execute_refusals: "refusals (snd (execute q ps s)) = tl (refusals s)"
  by (simp add: execute_def split: option.splits)

lemma execute_refused: "refused s \<Longrightarrow> \<not> fst (execute q ps s)"
  by (simp add: execute_def)

lemma execute_insert_free:
  assumes "\<not> refused s" and "tables s n = Some t" and "\<not> key_taken t r"
  shows "fst (execute (INSERT_INTO n) r s)"
    and "tables (snd (execute (INSERT_INTO n) r s)) n = Some (t\<lparr>rows := rows t @ [r]\<rparr>)"
  using assms by (simp_all add: execute_def)

lemma insert_each_accepts:
  assumes "tables s n = Some t"
    and "\<forall>k. pkey t = Some k \<longrightarrow>
           distinct (map (\<lambda>r. column r k) rs) \<and>
           (\<forall>r\<in>set rs. \<forall>r'\<in>set (rows t). column r' k \<noteq> column r k)"
  shows "fst (insert_each n rs s) = accepts (length rs) s"
  using assms
proof (induction rs arbitrary: s t)
  case Nil
  show ?case by (simp add: accepts_0)
next
  case (Cons r rs)
  let ?s' = "snd (execute (INSERT_INTO n) r s)"
  have a: "accepts (Suc (length rs)) s = (\<not> refused s \<and> accepts (length rs) ?s')"
    by (rule accepts_Suc) (rule execute_refusals)
  show ?case
  proof (cases "refused s")
    case True
    with execute_refused [OF True, of "INSERT_INTO n" r] a show ?thesis
      by (cases "execute (INSERT_INTO n) r s") simp
  next
    case False
    have free: "\<not> key_taken t r"
      using Cons.prems(2) by (auto simp add: key_taken_def list_ex_iff sql_eq_def split: option.splits)
    note e = execute_insert_free [OF False Cons.prems(1) free]
    have "\<forall>k. pkey (t\<lparr>rows := rows t @ [r]\<rparr>) = Some k \<longrightarrow>
           distinct (map (\<lambda>r. column r k) rs) \<and>
           (\<forall>r2\<in>set rs. \<forall>r'\<in>set (rows (t\<lparr>rows := rows t @ [r]\<rparr>)). column r' k \<noteq> column r2 k)"
      using Cons.prems(2) by auto
    from Cons.IH [OF e(2) this] e(1) a False show ?thesis
      by (cases "execute (INSERT_INTO n) r s") simp
  qed
qed

lemma in_one_transaction_flag:
  "fst (in_one_transaction n rs s) = fst (insert_each n rs (BeginTransaction s))"
  by (cases "insert_each n rs (BeginTransaction s)")
     (auto simp add: in_one_transaction_def split: bool.splits)

lemma accepts_Begin: "accepts k (BeginTransaction s) = accepts k s"
  by (simp add: accepts_def BeginTransaction_def)

lemma in_one_transaction_accepts:
  assumes "tables s n = Some t"
    and "\<forall>k. pkey t = Some k \<longrightarrow>
           distinct (map (\<lambda>r. column r k) rs) \<and>
           (\<forall>r\<in>set rs. \<forall>r'\<in>set (rows t). column r' k \<noteq> column r k)"
  shows "fst (in_one_transaction n rs s) = accepts (length rs) s"
proof -
  have "tables (BeginTransaction s) n = Some t"
    using assms(1) by (simp add: BeginTransaction_def)
  from insert_each_accepts [OF this assms(2)] show ?thesis
    by (simp add: in_one_transaction_flag accepts_Begin)
qed


lemma seed_keys:
  "distinct (map (\<lambda>r. column r 0) seed_rows)"
  by (simp add: seed_rows_explicit column_def)

lemma seed_accepts:
  assumes "tables s ''speed_limit'' = Some (speed_limit_table [])"
  shows "fst (in_one_transaction ''speed_limit'' seed_rows s) = accepts 13 s"
proof -
  have "length seed_rows = 13"
    by (simp add: seed_rows_def)
  moreover have "\<forall>k. pkey (speed_limit_table []) = Some k \<longrightarrow>
           distinct (map (\<lambda>r. column r k) seed_rows) \<and>
           (\<forall>r\<in>set seed_rows. \<forall>r'\<in>set (rows (speed_limit_table [])). column r' k \<noteq> column r k)"
    using seed_keys by (simp add: speed_limit_table_def)
  ultimately show ?thesis
    using in_one_transaction_accepts [OF assms, of seed_rows] by simp
qed

lemma SaveWayNodes_in_one_transaction:
  "SaveWayNodes wn s =
     in_one_transaction ''way_nodes'' (map (Node_row (wn_way_id wn)) (nodes wn)) s"
proof -
  let ?cmd = "BindParam 1 (SqlInt (wn_way_id wn)) (SQLiteCommand (INSERT_INTO ''way_nodes'') 4)"
  have "sql ?cmd = INSERT_INTO ''way_nodes''"
    and "params ?cmd = [SqlInt (wn_way_id wn), SqlNull, SqlNull, SqlNull]"
    by (simp_all add: BindParam_def SQLiteCommand_def numeral_eq_Suc)
  then have "SaveWayNodes_loop (nodes wn) ?cmd (BeginTransaction s) =
      insert_each ''way_nodes'' (map (Node_row (wn_way_id wn)) (nodes wn)) (BeginTransaction s)"
    by (rule SaveWayNodes_loop_eq)
  then show ?thesis
    by (simp add: SaveWayNodes_def in_one_transaction_def)
qed

lemma SaveNaviData_in_one_transaction:
  "SaveNaviData ni s =
     in_one_transaction ''navi_data'' (map (NaviData_row (ni_way_id ni)) (navi_data ni)) s"
proof -
  let ?cmd = "BindParam 1 (SqlInt (ni_way_id ni)) (SQLiteCommand (INSERT_INTO ''navi_data'') 3)"
  have "sql ?cmd = INSERT_INTO ''navi_data''"
    and "params ?cmd = [SqlInt (ni_way_id ni), SqlNull, SqlNull]"
    by (simp_all add: BindParam_def SQLiteCommand_def numeral_eq_Suc)
  then have "SaveNaviData_loop (navi_data ni) ?cmd (BeginTransaction s) =
      insert_each ''navi_data'' (map (NaviData_row (ni_way_id ni)) (navi_data ni)) (BeginTransaction s)"
    by (rule SaveNaviData_loop_eq)
  then show ?thesis
    by (simp add: SaveNaviData_def in_one_transaction_def)
qed

lemma FillTableSpeedLimit_in_one_transaction:
  "FillTableSpeedLimit s = in_one_transaction ''speed_limit'' seed_rows s"
proof -
  let ?cmd = "SQLiteCommand (INSERT_INTO ''speed_limit'') 2"
  have "sql ?cmd = INSERT_INTO ''speed_limit''" and "length (params ?cmd) = 2"
    by (simp_all add: SQLiteCommand_def)
  then have "FillTableSpeedLimit_loop 1 ?cmd (BeginTransaction s) =
      insert_each ''speed_limit'' seed_rows (BeginTransaction s)"
    unfolding seed_rows_def by (rule FillTableSpeedLimit_loop_eq)
  then show ?thesis
    by (simp add: FillTableSpeedLimit_def in_one_transaction_def)
qed

section \<open>Initialisation against the storage\<close>







lemma execute_each_journal: "journal (snd (execute_each qs s)) = journal s"
proof (induction qs arbitrary: s)
  case Nil
  show ?case by simp
next
  case (Cons q qs)
  obtain b s' where e: "execute q [] s = (b, s')"
    by (cases "execute q [] s")
  from execute_journal [of q "[]" s] e have "journal s' = journal s"
    by simp
  with Cons.IH [of s'] e show ?case
    by (cases b) simp_all
qed








lemma IsTableExisting_refusals:
  "refusals (snd (IsTableExisting kTableWay s)) = tl (refusals s)"
  using ExcuteQuery_refusals [of "COUNT_TABLES_LIKE ''way''" s]
  by (cases "ExcuteQuery (COUNT_TABLES_LIKE ''way'') s")
     (auto simp add: IsTableExisting_def kTableWay_def kMaxNumberOfTables_def kTableNames_def
       split: option.splits)

section \<open>What the allocators read\<close>

lemma CreateNewWayId_stored:
  assumes "\<not> refused s" and "tables s ''way'' = Some t"
    and "v = sql_max (column_affinity t 0) (map (\<lambda>r. column r 0) (rows t))"
  shows "fst (CreateNewWayId out s)"
    and "fst (snd (CreateNewWayId out s)) =
           (if GetDataType [v] 0 = kSqliteDataTypeNull then 1 else GetUint64Value [v] 0 + 1)"
proof -
  let ?q = "SELECT_MAX ''way'' 0"
  obtain r s' where e: "ExcuteQuery ?q s = (r, s')"
    by (cases "ExcuteQuery ?q s")
  with ExcuteQuery_result [OF assms(1), of ?q] assms(2,3) have "r = Some [[v]]"
    by simp
  with e show "fst (CreateNewWayId out s)"
    and "fst (snd (CreateNewWayId out s)) =
           (if GetDataType [v] 0 = kSqliteDataTypeNull then 1 else GetUint64Value [v] 0 + 1)"
    by (simp_all add: CreateNewWayId_def)
qed

lemma GetNaviTableId_threshold:
  assumes a: "accepts 2 s" and t: "tables s ''way_data'' = Some t"
    and v: "v = sql_max (column_affinity t 3) (map (\<lambda>r. column r 3) (rows t))"
    and m: "m = (if GetDataType [v] 0 = kSqliteDataTypeNull then 0 else GetUint64Value [v] 0)"
    and u: "tables s (''navi_data_'' @ to_string (unat m)) = Some u"
    and n: "length (rows u) < 2 ^ 64"
  shows "fst (GetNaviTableId out s)"
    and "fst (snd (GetNaviTableId out s)) = (if length (rows u) < 10000 then m else m + 1)"
proof -
  let ?q1 = "SELECT_MAX ''way_data'' 3"
  let ?q2 = "SELECT_COUNT (''navi_data_'' @ to_string (unat m))"
  obtain r1 s1 where e1: "ExcuteQuery ?q1 s = (r1, s1)"
    by (cases "ExcuteQuery ?q1 s")
  obtain r2 s2 where e2: "ExcuteQuery ?q2 s1 = (r2, s2)"
    by (cases "ExcuteQuery ?q2 s1")
  from e1 ExcuteQuery_refusals [of ?q1 s] ExcuteQuery_tables [of ?q1 s]
  have s1: "refusals s1 = tl (refusals s)" "tables s1 = tables s"
    by simp_all
  have "accepts (Suc (Suc 0)) s"
    using a by (simp add: numeral_2_eq_2)
  with accepts_Suc [OF s1(1), of "Suc 0"] have nr1: "\<not> refused s" and "accepts (Suc 0) s1"
    by simp_all
  with accepts_Suc [of s1 s1 0] have nr2: "\<not> refused s1"
    by (cases "refusals s1") (simp_all add: accepts_def refused_def)
  from e1 ExcuteQuery_result [OF nr1, of ?q1] t v have r1: "r1 = Some [[v]]"
    by simp
  from e2 ExcuteQuery_result [OF nr2, of ?q2] u s1
  have r2: "r2 = Some [[SqlInt (of_nat (length (rows u)))]]"
    by simp
  have f1: "fold (\<lambda>r (res, cur).
        (True, if GetDataType r 0 = kSqliteDataTypeNull then 0 else GetUint64Value r 0))
        [[v]] (False, 0) = (True, m)"
    using m by simp
  have f2: "fold (\<lambda>r (res, n). (True, GetUint64Value r 0))
        [[SqlInt (of_nat (length (rows u)))]] (True, 0) = (True, of_nat (length (rows u)))"
    by (simp add: column_def)
  have c: "((of_nat (length (rows u)) :: 64 word) < kMaxRowNumberOfDBTable) =
      (length (rows u) < 10000)"
    using n by (simp add: word_less_nat_alt unat_of_nat kMaxRowNumberOfDBTable_def)
  have g: "GetNaviTableId out s = (True, if length (rows u) < 10000 then m else m + 1, s2)"
    unfolding GetNaviTableId_def e1 r1 prod.case option.case f1 e2 r2 f2 c ..
  from g show "fst (GetNaviTableId out s)"
    by simp
  from g
  show "fst (snd (GetNaviTableId out s)) = (if length (rows u) < 10000 then m else m + 1)"
    by simp
qed

section \<open>Speeds read from the last matching row\<close>

lemma QueryWay_null_speed_last:
  assumes "\<not> refused s" and "tables s ''way'' = Some t" and "rows t = rs @ r # rs'"
    and "sql_eq (column r 0) (SqlInt wid)"
    and "\<forall>r'\<in>set rs'. \<not> sql_eq (column r' 0) (SqlInt wid)"
    and "column r 3 = SqlNull" and "column r 4 = SqlNull"
  shows "fst (QueryWayWithWayId wid out s)"
    and "speed_min (fst (snd (QueryWayWithWayId wid out s))) = 0"
    and "speed_max (fst (snd (QueryWayWithWayId wid out s))) = 0"
proof -
  have "filter (\<lambda>r. sql_eq (column r 0) (SqlInt wid)) rs' = []"
    using assms(5) by (simp add: filter_empty_conv)
  with QueryWay_rows [OF assms(1,2), of wid out] assms(3,4,6,7)
  show "fst (QueryWayWithWayId wid out s)"
    and "speed_min (fst (snd (QueryWayWithWayId wid out s))) = 0"
    and "speed_max (fst (snd (QueryWayWithWayId wid out s))) = 0"
    by (simp_all add: read_Way_def)
qed

section \<open>The properties of the specification\<close>


text \<open>
  C1. The three saves of more than one row (\<^verbatim>\<open>SaveWayNodes\<close>, \<^verbatim>\<open>SaveNaviData\<close> and
  the seed batch of \<^verbatim>\<open>FillTableSpeedLimit\<close>) write their rows inside one transaction.
  Each of them is the batch run against the storage: it opens the transaction, executes
  the inserts of its rows on the storage, in order, up to the first that the storage does
  not accept, then commits and returns true when every insert was accepted, and rolls
  back and returns false otherwise. Started with no transaction open, it makes exactly
  these calls, and it leaves the table with the rows of the batch after the rows it had
  when it returns true and the storage as it was before the call when it returns false.
  What it returns is decided by the storage: on a table without a primary key (as
  \<^verbatim>\<open>way_nodes\<close> and \<^verbatim>\<open>navi_data\<close> are created), and for the seed on the
  empty table \<^verbatim>\<open>speed_limit\<close>, it returns true exactly when the storage refuses
  none of the statements of the batch.
\<close>

theorem batches_are_transactional:
  "(journal s = None \<longrightarrow>
      transactional_batch ''way_nodes'' (map (Node_row (wn_way_id wn)) (nodes wn)) s
        (SaveWayNodes wn s) \<and>
      transactional_batch ''navi_data'' (map (NaviData_row (ni_way_id ni)) (navi_data ni)) s
        (SaveNaviData ni s) \<and>
      transactional_batch ''speed_limit'' seed_rows s (FillTableSpeedLimit s)) \<and>
   SaveWayNodes wn s =
     in_one_transaction ''way_nodes'' (map (Node_row (wn_way_id wn)) (nodes wn)) s \<and>
   SaveNaviData ni s =
     in_one_transaction ''navi_data'' (map (NaviData_row (ni_way_id ni)) (navi_data ni)) s \<and>
   FillTableSpeedLimit s = in_one_transaction ''speed_limit'' seed_rows s \<and>
   (tables s ''way_nodes'' = Some t \<and> pkey t = None \<longrightarrow>
      fst (SaveWayNodes wn s) = accepts (length (nodes wn)) s) \<and>
   (tables s ''navi_data'' = Some u \<and> pkey u = None \<longrightarrow>
      fst (SaveNaviData ni s) = accepts (length (navi_data ni)) s) \<and>
   (tables s ''speed_limit'' = Some (speed_limit_table []) \<longrightarrow>
      fst (FillTableSpeedLimit s) = accepts 13 s)"
proof (intro conjI impI)
  assume j: "journal s = None"
  show "transactional_batch ''way_nodes'' (map (Node_row (wn_way_id wn)) (nodes wn)) s
      (SaveWayNodes wn s)"
    using j by (rule SaveWayNodes_batch)
  show "transactional_batch ''navi_data'' (map (NaviData_row (ni_way_id ni)) (navi_data ni)) s
      (SaveNaviData ni s)"
    using j by (rule SaveNaviData_batch)
  show "transactional_batch ''speed_limit'' seed_rows s (FillTableSpeedLimit s)"
    using j by (rule FillTableSpeedLimit_batch)
next
  show "SaveWayNodes wn s =
      in_one_transaction ''way_nodes'' (map (Node_row (wn_way_id wn)) (nodes wn)) s"
    by (rule SaveWayNodes_in_one_transaction)
  show "SaveNaviData ni s =
      in_one_transaction ''navi_data'' (map (NaviData_row (ni_way_id ni)) (navi_data ni)) s"
    by (rule SaveNaviData_in_one_transaction)
  show "FillTableSpeedLimit s = in_one_transaction ''speed_limit'' seed_rows s"
    by (rule FillTableSpeedLimit_in_one_transaction)
next
  assume "tables s ''way_nodes'' = Some t \<and> pkey t = None"
  then show "fst (SaveWayNodes wn s) = accepts (length (nodes wn)) s"
    using in_one_transaction_accepts [of s "''way_nodes''" t
        "map (Node_row (wn_way_id wn)) (nodes wn)"]
    by (simp add: SaveWayNodes_in_one_transaction)
next
  assume "tables s ''navi_data'' = Some u \<and> pkey u = None"
  then show "fst (SaveNaviData ni s) = accepts (length (navi_data ni)) s"
    using in_one_transaction_accepts [of s "''navi_data''" u
        "map (NaviData_row (ni_way_id ni)) (navi_data ni)"]
    by (simp add: SaveNaviData_in_one_transaction)
next
  assume "tables s ''speed_limit'' = Some (speed_limit_table [])"
  then show "fst (FillTableSpeedLimit s) = accepts 13 s"
    by (simp add: FillTableSpeedLimit_in_one_transaction seed_accepts)
qed

theorem batches_are_transactional_witness:
  "journal ready_db = None \<and>
   tables ready_db ''way_nodes'' = Some (way_nodes_table []) \<and> pkey (way_nodes_table []) = None \<and>
   tables ready_db ''navi_data'' = Some (navi_data_table []) \<and> pkey (navi_data_table []) = None \<and>
   tables ready_db ''speed_limit'' = Some (speed_limit_table []) \<and>
   accepts 2 ready_db \<and>
   accepts 13 ready_db \<and>
   SaveWayNodes two_nodes ready_db =
     in_one_transaction ''way_nodes''
       [[SqlInt 1, SqlInt 0, SqlInt 10, SqlText ''a''], [SqlInt 1, SqlInt 1, SqlInt 11, SqlText ''b'']]
       ready_db \<and>
   fst (SaveWayNodes two_nodes ready_db) \<and>
   tables (snd (SaveWayNodes two_nodes ready_db)) =
     insert_rows ''way_nodes''
       [[SqlInt 1, SqlInt 0, SqlInt 10, SqlText ''a''], [SqlInt 1, SqlInt 1, SqlInt 11, SqlText ''b'']]
       (tables ready_db) \<and>
   calls (snd (SaveWayNodes two_nodes ready_db)) =
     [BEGIN,
      NON_QUERY (INSERT_INTO ''way_nodes'') [SqlInt 1, SqlInt 0, SqlInt 10, SqlText ''a''] True,
      NON_QUERY (INSERT_INTO ''way_nodes'') [SqlInt 1, SqlInt 1, SqlInt 11, SqlText ''b''] True,
      COMMIT] \<and>
   fst (SaveNaviData two_entries ready_db) \<and>
   tables (snd (SaveNaviData two_entries ready_db)) =
     insert_rows ''navi_data''
       [[SqlInt 1, SqlInt 0, SqlBlob [170, 187]], [SqlInt 1, SqlInt 1, SqlBlob []]]
       (tables ready_db) \<and>
   calls (snd (SaveNaviData two_entries ready_db)) =
     [BEGIN,
      NON_QUERY (INSERT_INTO ''navi_data'') [SqlInt 1, SqlInt 0, SqlBlob [170, 187]] True,
      NON_QUERY (INSERT_INTO ''navi_data'') [SqlInt 1, SqlInt 1, SqlBlob []] True,
      COMMIT] \<and>
   fst (FillTableSpeedLimit ready_db) \<and>
   tables (snd (FillTableSpeedLimit ready_db)) =
     insert_rows ''speed_limit'' seed_rows (tables ready_db) \<and>
   calls (snd (FillTableSpeedLimit ready_db)) =
     BEGIN # map (\<lambda>r. NON_QUERY (INSERT_INTO ''speed_limit'') r True) seed_rows @ [COMMIT] \<and>
   journal batch_db = None \<and>
   tables batch_db ''way_nodes'' = Some (way_nodes_table []) \<and>
   tables batch_db ''navi_data'' = Some (navi_data_table []) \<and>
   tables batch_db ''speed_limit'' = Some (speed_limit_table []) \<and>
   \<not> accepts 2 batch_db \<and>
   \<not> accepts 13 batch_db \<and>
   \<not> fst (SaveWayNodes two_nodes batch_db) \<and>
   tables (snd (SaveWayNodes two_nodes batch_db)) = tables batch_db \<and>
   calls (snd (SaveWayNodes two_nodes batch_db)) =
     [BEGIN,
      NON_QUERY (INSERT_INTO ''way_nodes'') [SqlInt 1, SqlInt 0, SqlInt 10, SqlText ''a''] True,
      NON_QUERY (INSERT_INTO ''way_nodes'') [SqlInt 1, SqlInt 1, SqlInt 11, SqlText ''b''] False,
      ROLLBACK] \<and>
   \<not> fst (SaveNaviData two_entries batch_db) \<and>
   tables (snd (SaveNaviData two_entries batch_db)) = tables batch_db \<and>
   calls (snd (SaveNaviData two_entries batch_db)) =
     [BEGIN,
      NON_QUERY (INSERT_INTO ''navi_data'') [SqlInt 1, SqlInt 0, SqlBlob [170, 187]] True,
      NON_QUERY (INSERT_INTO ''navi_data'') [SqlInt 1, SqlInt 1, SqlBlob []] False,
      ROLLBACK] \<and>
   \<not> fst (FillTableSpeedLimit batch_db) \<and>
   tables (snd (FillTableSpeedLimit batch_db)) = tables batch_db \<and>
   calls (snd (FillTableSpeedLimit batch_db)) =
     [BEGIN,
      NON_QUERY (INSERT_INTO ''speed_limit'') [SqlInt 1, SqlInt 30] True,
      NON_QUERY (INSERT_INTO ''speed_limit'') [SqlInt 2, SqlInt 40] False,
      ROLLBACK]"
proof -
  let ?ns = "[[SqlInt 1, SqlInt 0, SqlInt 10, SqlText ''a''],
      [SqlInt 1, SqlInt 1, SqlInt 11, SqlText ''b'']]"
  let ?es = "[[SqlInt 1, SqlInt 0, SqlBlob [170, 187]], [SqlInt 1, SqlInt 1, SqlBlob []]]"
  have j: "journal ready_db = None" "journal batch_db = None"
    by (simp_all add: ready_db_def batch_db_def)
  have t: "tables ready_db = tables batch_db"
    by (simp add: ready_db_def)
  have tb: "tables batch_db ''way_nodes'' = Some (way_nodes_table [])"
    "tables batch_db ''navi_data'' = Some (navi_data_table [])"
    "tables batch_db ''speed_limit'' = Some (speed_limit_table [])"
    by (simp_all add: batch_db_def)
  have p: "pkey (way_nodes_table []) = None" "pkey (navi_data_table []) = None"
    by (simp_all add: way_nodes_table_def navi_data_table_def)
  have n: "map (Node_row (wn_way_id two_nodes)) (nodes two_nodes) = ?ns"
    by (simp add: two_nodes_def Node_row_def)
  have e: "map (NaviData_row (ni_way_id two_entries)) (navi_data two_entries) = ?es"
    by (simp add: two_entries_def NaviData_row_def)
  have l: "length (nodes two_nodes) = 2" "length (navi_data two_entries) = 2"
    by (simp_all add: two_nodes_def two_entries_def)
  have a: "accepts 13 ready_db" "accepts 2 ready_db" "\<not> accepts 2 batch_db"
    "\<not> accepts 13 batch_db"
    by (simp_all add: accepts_def ready_db_def batch_db_def)
  have c1: "calls (snd (SaveWayNodes two_nodes ready_db)) =
     [BEGIN,
      NON_QUERY (INSERT_INTO ''way_nodes'') [SqlInt 1, SqlInt 0, SqlInt 10, SqlText ''a''] True,
      NON_QUERY (INSERT_INTO ''way_nodes'') [SqlInt 1, SqlInt 1, SqlInt 11, SqlText ''b''] True,
      COMMIT]"
    by code_simp
  have c2: "calls (snd (SaveNaviData two_entries ready_db)) =
     [BEGIN,
      NON_QUERY (INSERT_INTO ''navi_data'') [SqlInt 1, SqlInt 0, SqlBlob [170, 187]] True,
      NON_QUERY (INSERT_INTO ''navi_data'') [SqlInt 1, SqlInt 1, SqlBlob []] True,
      COMMIT]"
    by code_simp
  have c3: "calls (snd (FillTableSpeedLimit ready_db)) =
     BEGIN # map (\<lambda>r. NON_QUERY (INSERT_INTO ''speed_limit'') r True) seed_rows @ [COMMIT]"
    by code_simp
  have c4: "calls (snd (SaveWayNodes two_nodes batch_db)) =
     [BEGIN,
      NON_QUERY (INSERT_INTO ''way_nodes'') [SqlInt 1, SqlInt 0, SqlInt 10, SqlText ''a''] True,
      NON_QUERY (INSERT_INTO ''way_nodes'') [SqlInt 1, SqlInt 1, SqlInt 11, SqlText ''b''] False,
      ROLLBACK]"
    by code_simp
  have c5: "calls (snd (SaveNaviData two_entries batch_db)) =
     [BEGIN,
      NON_QUERY (INSERT_INTO ''navi_data'') [SqlInt 1, SqlInt 0, SqlBlob [170, 187]] True,
      NON_QUERY (INSERT_INTO ''navi_data'') [SqlInt 1, SqlInt 1, SqlBlob []] False,
      ROLLBACK]"
    by code_simp
  have c6: "calls (snd (FillTableSpeedLimit batch_db)) =
     [BEGIN,
      NON_QUERY (INSERT_INTO ''speed_limit'') [SqlInt 1, SqlInt 30] True,
      NON_QUERY (INSERT_INTO ''speed_limit'') [SqlInt 2, SqlInt 40] False,
      ROLLBACK]"
    by code_simp
  note r = batches_are_transactional [of ready_db two_nodes two_entries
      "way_nodes_table []" "navi_data_table []", unfolded n e l]
  note b = batches_are_transactional [of batch_db two_nodes two_entries
      "way_nodes_table []" "navi_data_table []", unfolded n e l]
  note r1 = r [THEN conjunct1, rule_format, OF j(1)]
  note b1 = b [THEN conjunct1, rule_format, OF j(2)]
  note r7 = r [THEN conjunct2, THEN conjunct2, THEN conjunct2,
    THEN conjunct2, THEN conjunct1, rule_format]
  note r8 = r [THEN conjunct2, THEN conjunct2, THEN conjunct2,
    THEN conjunct2, THEN conjunct2, THEN conjunct1, rule_format]
  note r9 = r [THEN conjunct2, THEN conjunct2, THEN conjunct2,
    THEN conjunct2, THEN conjunct2, THEN conjunct2, rule_format]
  note b7 = b [THEN conjunct2, THEN conjunct2, THEN conjunct2,
    THEN conjunct2, THEN conjunct1, rule_format]
  note b8 = b [THEN conjunct2, THEN conjunct2, THEN conjunct2,
    THEN conjunct2, THEN conjunct2, THEN conjunct1, rule_format]
  note b9 = b [THEN conjunct2, THEN conjunct2, THEN conjunct2,
    THEN conjunct2, THEN conjunct2, THEN conjunct2, rule_format]
  have f: "fst (SaveWayNodes two_nodes ready_db)" "fst (SaveNaviData two_entries ready_db)"
    "fst (FillTableSpeedLimit ready_db)"
    using r7 r8 r9 a tb p t by simp_all
  have g: "\<not> fst (SaveWayNodes two_nodes batch_db)" "\<not> fst (SaveNaviData two_entries batch_db)"
    "\<not> fst (FillTableSpeedLimit batch_db)"
    using b7 b8 b9 a tb p by simp_all
  have len: "length seed_rows = 13"
    by (simp add: seed_rows_def)
  have t1: "tables (snd (SaveWayNodes two_nodes ready_db)) =
      insert_rows ''way_nodes'' ?ns (tables ready_db)"
    using r1 [THEN conjunct1] f(1) by (auto simp add: transactional_batch_def)
  have t2: "tables (snd (SaveNaviData two_entries ready_db)) =
      insert_rows ''navi_data'' ?es (tables ready_db)"
    using r1 [THEN conjunct2, THEN conjunct1] f(2) by (auto simp add: transactional_batch_def)
  have t3: "tables (snd (FillTableSpeedLimit ready_db)) =
      insert_rows ''speed_limit'' seed_rows (tables ready_db)"
    using r1 [THEN conjunct2, THEN conjunct2] f(3)
    by (auto simp add: transactional_batch_def)
  have t4: "tables (snd (SaveWayNodes two_nodes batch_db)) = tables batch_db"
    using b1 [THEN conjunct1] g(1) by (auto simp add: transactional_batch_def)
  have t5: "tables (snd (SaveNaviData two_entries batch_db)) = tables batch_db"
    using b1 [THEN conjunct2, THEN conjunct1] g(2) by (auto simp add: transactional_batch_def)
  have t6: "tables (snd (FillTableSpeedLimit batch_db)) = tables batch_db"
    using b1 [THEN conjunct2, THEN conjunct2] g(3)
    by (auto simp add: transactional_batch_def)
  have q: "SaveWayNodes two_nodes ready_db = in_one_transaction ''way_nodes'' ?ns ready_db"
    by (rule r [THEN conjunct2, THEN conjunct1])
  show ?thesis
    using j tb t p a q f g c1 c2 c3 c4 c5 c6 t1 t2 t3 t4 t5 t6
    by (simp only: simp_thms)
qed



text \<open>
  C3. \<^verbatim>\<open>SaveWay\<close> and \<^verbatim>\<open>UpdateWay\<close> bind \<^verbatim>\<open>pre_way_id\<close> and
  \<^verbatim>\<open>next_way_id\<close> as NULL exactly when the field is 0 and as the value otherwise (the
  one statement each of them sends carries these parameters), and
  \<^verbatim>\<open>QueryWayWithWayId\<close> reads a NULL there back as 0: a way that was saved is found
  again by its identifier with the two links it was saved with, zero or not, and so is a
  way that was updated, in a table of which every row has the five columns.
\<close>

theorem Way_links_round_trip:
  "calls (snd (SaveWay way s)) =
     calls s @
       [NON_QUERY (INSERT_INTO ''way'')
          [SqlInt (way_id way),
           if pre_way_id way = 0 then SqlNull else SqlInt (pre_way_id way),
           if next_way_id way = 0 then SqlNull else SqlInt (next_way_id way),
           SqlInt (ucast (speed_min way)), SqlInt (ucast (speed_max way))]
          (fst (SaveWay way s))] \<and>
   calls (snd (UpdateWay wid way s)) =
     calls s @
       [NON_QUERY (UPDATE_SET ''way'' [1, 2, 3, 4] 0)
          [if pre_way_id way = 0 then SqlNull else SqlInt (pre_way_id way),
           if next_way_id way = 0 then SqlNull else SqlInt (next_way_id way),
           SqlInt (ucast (speed_min way)), SqlInt (ucast (speed_max way)), SqlInt wid]
          (fst (UpdateWay wid way s))] \<and>
   (fst (SaveWay way s) \<and> \<not> refused (snd (SaveWay way s)) \<longrightarrow>
      fst (QueryWayWithWayId (way_id way) out (snd (SaveWay way s))) \<and>
      pre_way_id (fst (snd (QueryWayWithWayId (way_id way) out (snd (SaveWay way s))))) =
        pre_way_id way \<and>
      next_way_id (fst (snd (QueryWayWithWayId (way_id way) out (snd (SaveWay way s))))) =
        next_way_id way) \<and>
   (fst (UpdateWay wid way s) \<and> \<not> refused (snd (UpdateWay wid way s)) \<and>
    tables s ''way'' = Some t \<and> list_all (\<lambda>r. length r = 5) (rows t) \<and>
    fst (QueryWayWithWayId wid out (snd (UpdateWay wid way s))) \<longrightarrow>
      pre_way_id (fst (snd (QueryWayWithWayId wid out (snd (UpdateWay wid way s))))) =
        pre_way_id way \<and>
      next_way_id (fst (snd (QueryWayWithWayId wid out (snd (UpdateWay wid way s))))) =
        next_way_id way)"
proof (intro conjI impI)
  show "calls (snd (SaveWay way s)) =
     calls s @
       [NON_QUERY (INSERT_INTO ''way'')
          [SqlInt (way_id way),
           if pre_way_id way = 0 then SqlNull else SqlInt (pre_way_id way),
           if next_way_id way = 0 then SqlNull else SqlInt (next_way_id way),
           SqlInt (ucast (speed_min way)), SqlInt (ucast (speed_max way))]
          (fst (SaveWay way s))]"
    using execute_calls [of "INSERT_INTO ''way''" "Way_row way" s]
    by (simp add: SaveWay_execute Way_row_def)
  show "calls (snd (UpdateWay wid way s)) =
     calls s @
       [NON_QUERY (UPDATE_SET ''way'' [1, 2, 3, 4] 0)
          [if pre_way_id way = 0 then SqlNull else SqlInt (pre_way_id way),
           if next_way_id way = 0 then SqlNull else SqlInt (next_way_id way),
           SqlInt (ucast (speed_min way)), SqlInt (ucast (speed_max way)), SqlInt wid]
          (fst (UpdateWay wid way s))]"
    using execute_calls [of "UPDATE_SET ''way'' [1, 2, 3, 4] 0" "tl (Way_row way) @ [SqlInt wid]" s]
    by (simp add: UpdateWay_execute Way_row_def)
next
  assume a: "fst (SaveWay way s) \<and> \<not> refused (snd (SaveWay way s))"
  then have ok: "fst (SaveWay way s)" and nr: "\<not> refused (snd (SaveWay way s))"
    by simp_all
  from SaveWay_then_Query(1) [OF ok nr]
  show "fst (QueryWayWithWayId (way_id way) out (snd (SaveWay way s)))" .
  from SaveWay_then_Query(2) [OF ok nr, of out] obtain w where
    w: "fst (snd (QueryWayWithWayId (way_id way) out (snd (SaveWay way s)))) =
          read_Way (Way_row way) w"
    by blast
  show "pre_way_id (fst (snd (QueryWayWithWayId (way_id way) out (snd (SaveWay way s))))) =
      pre_way_id way"
    unfolding w by (rule read_Way_row)
  show "next_way_id (fst (snd (QueryWayWithWayId (way_id way) out (snd (SaveWay way s))))) =
      next_way_id way"
    unfolding w by (rule read_Way_row)
next
  assume a: "fst (UpdateWay wid way s) \<and> \<not> refused (snd (UpdateWay wid way s)) \<and>
    tables s ''way'' = Some t \<and> list_all (\<lambda>r. length r = 5) (rows t) \<and>
    fst (QueryWayWithWayId wid out (snd (UpdateWay wid way s)))"
  then have "\<exists>x w. fst (snd (QueryWayWithWayId wid out (snd (UpdateWay wid way s)))) =
      read_Way (x # tl (Way_row way)) w"
    by (intro UpdateWay_then_Query [of wid way s t out]) simp_all
  then obtain x w where
    w: "fst (snd (QueryWayWithWayId wid out (snd (UpdateWay wid way s)))) =
          read_Way (x # tl (Way_row way)) w"
    by blast
  show "pre_way_id (fst (snd (QueryWayWithWayId wid out (snd (UpdateWay wid way s))))) =
      pre_way_id way"
    unfolding w by (rule read_Way_tail)
  show "next_way_id (fst (snd (QueryWayWithWayId wid out (snd (UpdateWay wid way s))))) =
      next_way_id way"
    unfolding w by (rule read_Way_tail)
qed

theorem Way_links_round_trip_witness:
  "fst (SaveWay new_Way (ways_db [way_7])) \<and>
   \<not> refused (snd (SaveWay new_Way (ways_db [way_7]))) \<and>
   fst (QueryWayWithWayId 8 blank_Way (snd (SaveWay new_Way (ways_db [way_7])))) \<and>
   pre_way_id (fst (snd (QueryWayWithWayId 8 blank_Way (snd (SaveWay new_Way (ways_db [way_7])))))) = 7 \<and>
   next_way_id (fst (snd (QueryWayWithWayId 8 blank_Way (snd (SaveWay new_Way (ways_db [way_7])))))) = 0 \<and>
   fst (UpdateWay 7 changed_Way (ways_db [way_7])) \<and>
   \<not> refused (snd (UpdateWay 7 changed_Way (ways_db [way_7]))) \<and>
   tables (ways_db [way_7]) ''way'' = Some (way_table [way_7]) \<and>
   list_all (\<lambda>r. length r = 5) (rows (way_table [way_7])) \<and>
   fst (QueryWayWithWayId 7 blank_Way (snd (UpdateWay 7 changed_Way (ways_db [way_7])))) \<and>
   pre_way_id (fst (snd (QueryWayWithWayId 7 blank_Way (snd (UpdateWay 7 changed_Way (ways_db [way_7])))))) = 0 \<and>
   next_way_id (fst (snd (QueryWayWithWayId 7 blank_Way (snd (UpdateWay 7 changed_Way (ways_db [way_7])))))) = 8"
proof -
  have a: "fst (SaveWay new_Way (ways_db [way_7]))"
    by code_simp
  have b: "\<not> refused (snd (SaveWay new_Way (ways_db [way_7])))"
    by code_simp
  have c: "fst (UpdateWay 7 changed_Way (ways_db [way_7]))"
    by code_simp
  have d: "\<not> refused (snd (UpdateWay 7 changed_Way (ways_db [way_7])))"
    by code_simp
  have e: "tables (ways_db [way_7]) ''way'' = Some (way_table [way_7])"
    by (simp add: ways_db_def)
  have f: "list_all (\<lambda>r. length r = 5) (rows (way_table [way_7]))"
    by (simp add: way_table_def way_7_def)
  have g: "fst (QueryWayWithWayId 7 blank_Way (snd (UpdateWay 7 changed_Way (ways_db [way_7]))))"
    by code_simp
  have n: "way_id new_Way = 8" "pre_way_id new_Way = 7" "next_way_id new_Way = 0"
    "pre_way_id changed_Way = 0" "next_way_id changed_Way = 8"
    by (simp_all add: new_Way_def changed_Way_def)
  from Way_links_round_trip [of new_Way "ways_db [way_7]" 7 blank_Way "way_table [way_7]"]
    a b n
  have s: "fst (QueryWayWithWayId 8 blank_Way (snd (SaveWay new_Way (ways_db [way_7])))) \<and>
    pre_way_id (fst (snd (QueryWayWithWayId 8 blank_Way (snd (SaveWay new_Way (ways_db [way_7])))))) = 7 \<and>
    next_way_id (fst (snd (QueryWayWithWayId 8 blank_Way (snd (SaveWay new_Way (ways_db [way_7])))))) = 0"
    by simp
  from Way_links_round_trip [of changed_Way "ways_db [way_7]" 7 blank_Way "way_table [way_7]"]
    c d e f g n
  have u: "pre_way_id (fst (snd (QueryWayWithWayId 7 blank_Way (snd (UpdateWay 7 changed_Way (ways_db [way_7])))))) = 0 \<and>
    next_way_id (fst (snd (QueryWayWithWayId 7 blank_Way (snd (UpdateWay 7 changed_Way (ways_db [way_7])))))) = 8"
    by simp
  from a b c d e f g s u show ?thesis
    by simp
qed

text \<open>
  C4. \<^verbatim>\<open>CreateNewWayId\<close> does not store the largest identifier plus one. The
  column \<^verbatim>\<open>way_id\<close> is declared \<^verbatim>\<open>TEXT\<close>, so the maximum the query returns is
  the maximum of the stored texts. On the table without ways it stores 1. With the ways
  9 and 10 saved on the initialised storage (both saves return true and the table holds
  the two identifiers), the query returns 9, the text of 10 coming before the text of 9,
  and \<^verbatim>\<open>CreateNewWayId\<close> returns true and stores 10, not 11: the identifier of a
  way the table has, with which \<^verbatim>\<open>SaveWay\<close> then fails.
\<close>

theorem CreateNewWayId_text_maximum:
  "fst (snd (CreateNewWayId 0 initialised)) = 1 \<and>
   fst (SaveWay way_9 initialised) \<and>
   fst (SaveWay way_10 (snd (SaveWay way_9 initialised))) \<and>
   map_option (\<lambda>t. map (\<lambda>r. column r 0) (rows t)) (tables nine_and_ten ''way'') =
     Some [SqlInt 9, SqlInt 10] \<and>
   map_option (\<lambda>t. column_affinity t 0) (tables nine_and_ten ''way'') = Some TEXT \<and>
   stored TEXT (SqlInt 9) = SqlText ''9'' \<and>
   stored TEXT (SqlInt 10) = SqlText ''10'' \<and>
   sql_less (SqlText ''10'') (SqlText ''9'') \<and>
   fst (ExcuteQuery (SELECT_MAX ''way'' 0) nine_and_ten) = Some [[SqlInt 9]] \<and>
   fst (CreateNewWayId 0 nine_and_ten) \<and>
   fst (snd (CreateNewWayId 0 nine_and_ten)) = 10 \<and>
   \<not> fst (SaveWay (way_9\<lparr>way_id := fst (snd (CreateNewWayId 0 nine_and_ten))\<rparr>)
           (snd (snd (CreateNewWayId 0 nine_and_ten))))"
proof (intro conjI)
  show "fst (snd (CreateNewWayId 0 initialised)) = 1"
    by code_simp
  show "fst (SaveWay way_9 initialised)"
    by code_simp
  show "fst (SaveWay way_10 (snd (SaveWay way_9 initialised)))"
    by code_simp
  show "map_option (\<lambda>t. map (\<lambda>r. column r 0) (rows t)) (tables nine_and_ten ''way'') =
     Some [SqlInt 9, SqlInt 10]"
    by code_simp
  show "map_option (\<lambda>t. column_affinity t 0) (tables nine_and_ten ''way'') = Some TEXT"
    by code_simp
  show "stored TEXT (SqlInt 9) = SqlText ''9''"
    by code_simp
  show "stored TEXT (SqlInt 10) = SqlText ''10''"
    by code_simp
  show "sql_less (SqlText ''10'') (SqlText ''9'')"
    by code_simp
  show "fst (ExcuteQuery (SELECT_MAX ''way'' 0) nine_and_ten) = Some [[SqlInt 9]]"
    by code_simp
  show "fst (CreateNewWayId 0 nine_and_ten)"
    by code_simp
  show "fst (snd (CreateNewWayId 0 nine_and_ten)) = 10"
    by code_simp
  show "\<not> fst (SaveWay (way_9\<lparr>way_id := fst (snd (CreateNewWayId 0 nine_and_ten))\<rparr>)
           (snd (snd (CreateNewWayId 0 nine_and_ten))))"
    by code_simp
qed

text \<open>
  C5. \<^verbatim>\<open>GetNaviTableId\<close> does not start from the largest shard. The column
  \<^verbatim>\<open>navi_table_id\<close> is declared \<^verbatim>\<open>TEXT\<close>, so the maximum the query returns is
  the maximum of the stored texts. With the shards 2 and 10 named in
  \<^verbatim>\<open>way_data\<close>, the table \<^verbatim>\<open>navi_data_2\<close> of three rows and the table
  \<^verbatim>\<open>navi_data_10\<close> of one, the query returns 2, the text of 10 coming before the
  text of 2, and \<^verbatim>\<open>GetNaviTableId\<close> returns true and stores 2, not 10.
\<close>

theorem GetNaviTableId_text_maximum:
  "map_option (\<lambda>t. map (\<lambda>r. column r 3) (rows t)) (tables two_shards_db ''way_data'') =
     Some [SqlInt 2, SqlInt 10] \<and>
   map_option (\<lambda>t. column_affinity t 3) (tables two_shards_db ''way_data'') = Some TEXT \<and>
   stored TEXT (SqlInt 2) = SqlText ''2'' \<and>
   stored TEXT (SqlInt 10) = SqlText ''10'' \<and>
   sql_less (SqlText ''10'') (SqlText ''2'') \<and>
   fst (ExcuteQuery (SELECT_MAX ''way_data'' 3) two_shards_db) = Some [[SqlInt 2]] \<and>
   map_option (\<lambda>t. length (rows t)) (tables two_shards_db ''navi_data_2'') = Some 3 \<and>
   map_option (\<lambda>t. length (rows t)) (tables two_shards_db ''navi_data_10'') = Some 1 \<and>
   fst (GetNaviTableId 0 two_shards_db) \<and>
   fst (snd (GetNaviTableId 0 two_shards_db)) = 2"
proof (intro conjI)
  show "map_option (\<lambda>t. map (\<lambda>r. column r 3) (rows t)) (tables two_shards_db ''way_data'') =
     Some [SqlInt 2, SqlInt 10]"
    by code_simp
  show "map_option (\<lambda>t. column_affinity t 3) (tables two_shards_db ''way_data'') = Some TEXT"
    by code_simp
  show "stored TEXT (SqlInt 2) = SqlText ''2''"
    by code_simp
  show "stored TEXT (SqlInt 10) = SqlText ''10''"
    by code_simp
  show "sql_less (SqlText ''10'') (SqlText ''2'')"
    by code_simp
  show "fst (ExcuteQuery (SELECT_MAX ''way_data'' 3) two_shards_db) = Some [[SqlInt 2]]"
    by code_simp
  show "map_option (\<lambda>t. length (rows t)) (tables two_shards_db ''navi_data_2'') = Some 3"
    by code_simp
  show "map_option (\<lambda>t. length (rows t)) (tables two_shards_db ''navi_data_10'') = Some 1"
    by code_simp
  show "fst (GetNaviTableId 0 two_shards_db)"
    by code_simp
  show "fst (snd (GetNaviTableId 0 two_shards_db)) = 2"
    by code_simp
qed

text \<open>
  C6. Each query by way identifier (\<^verbatim>\<open>QueryWayWithWayId\<close>,
  \<^verbatim>\<open>QueryWayNodesWithWayId\<close>, \<^verbatim>\<open>QueryWayDataWithWayId\<close> and the two overloads of
  \<^verbatim>\<open>QueryNaviDataWithWayId\<close>) returns true exactly when its query runs and a row is
  read; when it returns false, for a query that failed or one that matched no row, the
  output parameter holds what it held before the call.
\<close>

theorem queries_report_rows:
  "fst (QueryWayWithWayId wid way s) = found (SELECT_WHERE ''way'' None [(0, SqlInt wid)]) s \<and>
   (\<not> fst (QueryWayWithWayId wid way s) \<longrightarrow> fst (snd (QueryWayWithWayId wid way s)) = way) \<and>
   fst (QueryWayNodesWithWayId wid wn s) =
     found (SELECT_WHERE ''way_nodes'' None [(0, SqlInt wid)]) s \<and>
   (\<not> fst (QueryWayNodesWithWayId wid wn s) \<longrightarrow>
      fst (snd (QueryWayNodesWithWayId wid wn s)) = wn) \<and>
   fst (QueryWayDataWithWayId wid wd s) =
     found (SELECT_WHERE ''way_data'' None [(0, SqlInt wid)]) s \<and>
   (\<not> fst (QueryWayDataWithWayId wid wd s) \<longrightarrow>
      fst (snd (QueryWayDataWithWayId wid wd s)) = wd) \<and>
   fst (QueryNaviDataWithWayId wid ds s) =
     found (SELECT_WHERE ''navi_data'' (Some [1, 2]) [(0, SqlInt wid)]) s \<and>
   (\<not> fst (QueryNaviDataWithWayId wid ds s) \<longrightarrow>
      fst (snd (QueryNaviDataWithWayId wid ds s)) = ds) \<and>
   fst (QueryNaviDataWithWayId_index wid idx d s) =
     found (SELECT_WHERE ''navi_data'' (Some [2]) [(0, SqlInt wid), (1, SqlInt (ucast idx))]) s \<and>
   (\<not> fst (QueryNaviDataWithWayId_index wid idx d s) \<longrightarrow>
      fst (snd (QueryNaviDataWithWayId_index wid idx d s)) = d)"
  using QueryWay_flag QueryWay_not_found QueryWayNodes_flag QueryWayNodes_not_found
    QueryWayData_flag QueryWayData_not_found QueryNaviData_flag QueryNaviData_not_found
    QueryNaviData_index_flag QueryNaviData_index_not_found
  by (intro conjI impI) blast+

theorem queries_report_rows_witness:
  "\<not> fst (QueryWayWithWayId 8 blank_Way (ways_db [way_7])) \<and>
   fst (snd (QueryWayWithWayId 8 blank_Way (ways_db [way_7]))) = blank_Way \<and>
   \<not> fst (QueryWayNodesWithWayId 8 two_nodes (ways_db [way_7])) \<and>
   fst (snd (QueryWayNodesWithWayId 8 two_nodes (ways_db [way_7]))) = two_nodes \<and>
   \<not> fst (QueryWayDataWithWayId 8 blank_WayData (ways_db [way_7])) \<and>
   fst (snd (QueryWayDataWithWayId 8 blank_WayData (ways_db [way_7]))) = blank_WayData \<and>
   \<not> fst (QueryNaviDataWithWayId 8 [blank_NaviData] (ways_db [way_7])) \<and>
   fst (snd (QueryNaviDataWithWayId 8 [blank_NaviData] (ways_db [way_7]))) = [blank_NaviData] \<and>
   \<not> fst (QueryNaviDataWithWayId_index 8 0 blank_NaviData (ways_db [way_7])) \<and>
   fst (snd (QueryNaviDataWithWayId_index 8 0 blank_NaviData (ways_db [way_7]))) =
     blank_NaviData \<and>
   fst (QueryWayWithWayId 7 blank_Way (ways_db [way_7])) \<and>
   found (SELECT_WHERE ''way'' None [(0, SqlInt 7)]) (ways_db [way_7])"
proof -
  have a: "\<not> fst (QueryWayWithWayId 8 blank_Way (ways_db [way_7]))"
    by code_simp
  have b: "\<not> fst (QueryWayNodesWithWayId 8 two_nodes (ways_db [way_7]))"
    by code_simp
  have c: "\<not> fst (QueryWayDataWithWayId 8 blank_WayData (ways_db [way_7]))"
    by code_simp
  have d: "\<not> fst (QueryNaviDataWithWayId 8 [blank_NaviData] (ways_db [way_7]))"
    by code_simp
  have e: "\<not> fst (QueryNaviDataWithWayId_index 8 0 blank_NaviData (ways_db [way_7]))"
    by code_simp
  have f: "fst (QueryWayWithWayId 7 blank_Way (ways_db [way_7]))"
    by code_simp
  note q = queries_report_rows [of _ blank_Way "ways_db [way_7]" two_nodes blank_WayData
      "[blank_NaviData]" 0 blank_NaviData]
  from q [of 8] a b c d e
  have "fst (snd (QueryWayWithWayId 8 blank_Way (ways_db [way_7]))) = blank_Way"
    and "fst (snd (QueryWayNodesWithWayId 8 two_nodes (ways_db [way_7]))) = two_nodes"
    and "fst (snd (QueryWayDataWithWayId 8 blank_WayData (ways_db [way_7]))) = blank_WayData"
    and "fst (snd (QueryNaviDataWithWayId 8 [blank_NaviData] (ways_db [way_7]))) =
      [blank_NaviData]"
    and "fst (snd (QueryNaviDataWithWayId_index 8 0 blank_NaviData (ways_db [way_7]))) =
      blank_NaviData"
    by blast+
  moreover from q [of 7] f
  have "found (SELECT_WHERE ''way'' None [(0, SqlInt 7)]) (ways_db [way_7])"
    by blast
  ultimately show ?thesis
    using a b c d e f by simp
qed

text \<open>
  C7, as stated, fails where \<^verbatim>\<open>InitDatabase\<close> succeeds without initialising: it
  returns true as soon as it finds the table \<^verbatim>\<open>way\<close>, whatever the table
  \<^verbatim>\<open>speed_limit\<close> holds. After an initialisation that a storage error stopped
  behind the table \<^verbatim>\<open>way\<close>, the next \<^verbatim>\<open>InitDatabase\<close> returns true and the
  table of speed limits is empty.
\<close>

theorem speed_limit_unseeded_counterexample:
  "fst (InitDatabase failing) = Inr False \<and>
   fst (InitDatabase half_made) = Inr True \<and>
   map_option rows (tables (snd (InitDatabase half_made)) ''speed_limit'') = Some [] \<and>
   map_option rows (tables (snd (InitDatabase half_made)) ''speed_limit'') \<noteq> Some seed_rows"
proof -
  have a: "fst (InitDatabase failing) = Inr False"
    by code_simp
  have b: "fst (InitDatabase half_made) = Inr True"
    by code_simp
  have c: "map_option rows (tables (snd (InitDatabase half_made)) ''speed_limit'') = Some []"
    by code_simp
  have d: "Some [] \<noteq> Some seed_rows"
    by (simp add: seed_rows_explicit)
  from a b c d show ?thesis
    by (simp only: simp_thms)
qed

text \<open>
  C7, amended. When \<^verbatim>\<open>InitDatabase\<close>, started with no transaction open, does not
  find the table \<^verbatim>\<open>way\<close> and returns true, the table \<^verbatim>\<open>speed_limit\<close> holds
  exactly the thirteen rows (id, speed) with id from 1 to 13 and speed =
  30 + 10 * (id - 1), from (1, 30) to (13, 150), in this order; and it still holds
  exactly these rows after any sequence of operations of the component, whatever their
  arguments and outcomes.
\<close>

theorem speed_limit_seeded_and_kept:
  assumes "journal s = None" and "\<not> fst (IsTableExisting kTableWay s)"
    and "fst (InitDatabase s) = Inr True"
  shows "map_option rows (tables (fold after ops (snd (InitDatabase s))) ''speed_limit'') =
           Some seed_rows \<and>
         seed_rows =
           [[SqlInt 1, SqlInt 30], [SqlInt 2, SqlInt 40], [SqlInt 3, SqlInt 50],
            [SqlInt 4, SqlInt 60], [SqlInt 5, SqlInt 70], [SqlInt 6, SqlInt 80],
            [SqlInt 7, SqlInt 90], [SqlInt 8, SqlInt 100], [SqlInt 9, SqlInt 110],
            [SqlInt 10, SqlInt 120], [SqlInt 11, SqlInt 130], [SqlInt 12, SqlInt 140],
            [SqlInt 13, SqlInt 150]]"
proof
  let ?t = "speed_limit_table seed_rows"
  from InitDatabase_seeded [OF assms] have "kept ?t (snd (InitDatabase s))" .
  then have "kept ?t (fold after ops (snd (InitDatabase s)))"
    by (rule fold_after_kept)
  then show "map_option rows (tables (fold after ops (snd (InitDatabase s))) ''speed_limit'') =
      Some seed_rows"
    by (simp add: kept_def speed_limit_table_def)
  show "seed_rows =
           [[SqlInt 1, SqlInt 30], [SqlInt 2, SqlInt 40], [SqlInt 3, SqlInt 50],
            [SqlInt 4, SqlInt 60], [SqlInt 5, SqlInt 70], [SqlInt 6, SqlInt 80],
            [SqlInt 7, SqlInt 90], [SqlInt 8, SqlInt 100], [SqlInt 9, SqlInt 110],
            [SqlInt 10, SqlInt 120], [SqlInt 11, SqlInt 130], [SqlInt 12, SqlInt 140],
            [SqlInt 13, SqlInt 150]]"
    by (rule seed_rows_explicit)
qed

theorem speed_limit_seeded_and_kept_witness:
  "journal empty_db = None \<and>
   \<not> fst (IsTableExisting kTableWay empty_db) \<and>
   fst (InitDatabase empty_db) = Inr True \<and>
   map_option rows (tables (snd (InitDatabase empty_db)) ''speed_limit'') = Some seed_rows \<and>
   map_option rows
     (tables (fold after some_operations (snd (InitDatabase empty_db))) ''speed_limit'') =
     Some seed_rows"
proof -
  have a: "journal empty_db = None"
    by (simp add: empty_db_def)
  have b: "\<not> fst (IsTableExisting kTableWay empty_db)"
    by code_simp
  have c: "fst (InitDatabase empty_db) = Inr True"
    by code_simp
  from speed_limit_seeded_and_kept [OF a b c, of "[]"]
    speed_limit_seeded_and_kept [OF a b c, of some_operations] a b c
  show ?thesis by simp
qed

text \<open>
  C8. For an index that is no table, \<^verbatim>\<open>IsTableExisting\<close> returns false without a
  call to the driver, but \<^verbatim>\<open>CreateTable\<close> does not: it sends the empty statement and
  returns true when the driver accepts it, and it throws \<^verbatim>\<open>std::out_of_range\<close> from
  \<^verbatim>\<open>kTableNames.at\<close> when the driver refuses it. At the index
  \<^verbatim>\<open>kMaxNumberOfTables\<close>:
\<close>

theorem CreateTable_unknown_index:
  "IsTableExisting kMaxNumberOfTables empty_db = (False, empty_db) \<and>
   fst (CreateTable kMaxNumberOfTables empty_db) = Inr True \<and>
   calls (snd (CreateTable kMaxNumberOfTables empty_db)) = [NON_QUERY EMPTY [] True] \<and>
   fst (CreateTable kMaxNumberOfTables refusing) = Inl out_of_range \<and>
   calls (snd (CreateTable kMaxNumberOfTables refusing)) = [NON_QUERY EMPTY [] False]"
proof -
  have "IsTableExisting kMaxNumberOfTables empty_db = (False, empty_db)"
    by (simp add: IsTableExisting_def)
  moreover have "fst (CreateTable kMaxNumberOfTables empty_db) = Inr True"
    by code_simp
  moreover have "calls (snd (CreateTable kMaxNumberOfTables empty_db)) = [NON_QUERY EMPTY [] True]"
    by code_simp
  moreover have "fst (CreateTable kMaxNumberOfTables refusing) = Inl out_of_range"
    by code_simp
  moreover have "calls (snd (CreateTable kMaxNumberOfTables refusing)) =
      [NON_QUERY EMPTY [] False]"
    by code_simp
  ultimately show ?thesis by simp
qed

text \<open>
  C9. The two speed fields are not bound as the two links are: the statement of
  \<^verbatim>\<open>SaveWay\<close> and that of \<^verbatim>\<open>UpdateWay\<close> carry \<^verbatim>\<open>speed_min\<close> and
  \<^verbatim>\<open>speed_max\<close> as integers whatever their value, 0 included, never as NULL; yet
  \<^verbatim>\<open>QueryWayWithWayId\<close> reads a NULL in these columns as 0: it does so from the
  last row of the table when that row has the identifier, and from the last row that
  has the identifier wherever it is in the table.
\<close>

theorem speed_fields_asymmetric:
  "(\<exists>a b c. calls (snd (SaveWay way s)) =
      calls s @
        [NON_QUERY (INSERT_INTO ''way'')
           [a, b, c, SqlInt (ucast (speed_min way)), SqlInt (ucast (speed_max way))]
           (fst (SaveWay way s))]) \<and>
   (\<exists>a b c. calls (snd (UpdateWay wid way s)) =
      calls s @
        [NON_QUERY (UPDATE_SET ''way'' [1, 2, 3, 4] 0)
           [a, b, SqlInt (ucast (speed_min way)), SqlInt (ucast (speed_max way)), c]
           (fst (UpdateWay wid way s))]) \<and>
   (\<not> refused s \<and> tables s ''way'' = Some t \<and> rows t = rs @ [r] \<and>
    sql_eq (column r 0) (SqlInt wid) \<and> column r 3 = SqlNull \<and> column r 4 = SqlNull \<longrightarrow>
      fst (QueryWayWithWayId wid out s) \<and>
      speed_min (fst (snd (QueryWayWithWayId wid out s))) = 0 \<and>
      speed_max (fst (snd (QueryWayWithWayId wid out s))) = 0) \<and>
   (\<not> refused s \<and> tables s ''way'' = Some t \<and> rows t = rs @ r # rs' \<and>
    sql_eq (column r 0) (SqlInt wid) \<and>
    (\<forall>r'\<in>set rs'. \<not> sql_eq (column r' 0) (SqlInt wid)) \<and>
    column r 3 = SqlNull \<and> column r 4 = SqlNull \<longrightarrow>
      fst (QueryWayWithWayId wid out s) \<and>
      speed_min (fst (snd (QueryWayWithWayId wid out s))) = 0 \<and>
      speed_max (fst (snd (QueryWayWithWayId wid out s))) = 0)"
proof (intro conjI impI)
  show "\<exists>a b c. calls (snd (SaveWay way s)) =
      calls s @
        [NON_QUERY (INSERT_INTO ''way'')
           [a, b, c, SqlInt (ucast (speed_min way)), SqlInt (ucast (speed_max way))]
           (fst (SaveWay way s))]"
    using execute_calls [of "INSERT_INTO ''way''" "Way_row way" s]
    by (simp add: SaveWay_execute Way_row_def)
  show "\<exists>a b c. calls (snd (UpdateWay wid way s)) =
      calls s @
        [NON_QUERY (UPDATE_SET ''way'' [1, 2, 3, 4] 0)
           [a, b, SqlInt (ucast (speed_min way)), SqlInt (ucast (speed_max way)), c]
           (fst (UpdateWay wid way s))]"
    using execute_calls [of "UPDATE_SET ''way'' [1, 2, 3, 4] 0" "tl (Way_row way) @ [SqlInt wid]" s]
    by (simp add: UpdateWay_execute Way_row_def)
next
  assume a: "\<not> refused s \<and> tables s ''way'' = Some t \<and> rows t = rs @ [r] \<and>
    sql_eq (column r 0) (SqlInt wid) \<and> column r 3 = SqlNull \<and> column r 4 = SqlNull"
  then have h: "\<not> refused s" "tables s ''way'' = Some t" "rows t = rs @ [r]"
    "sql_eq (column r 0) (SqlInt wid)" "column r 3 = SqlNull" "column r 4 = SqlNull"
    by simp_all
  from QueryWay_null_speed(1) [OF h] show "fst (QueryWayWithWayId wid out s)" .
  from QueryWay_null_speed(2) [OF h]
  show "speed_min (fst (snd (QueryWayWithWayId wid out s))) = 0" .
  from QueryWay_null_speed(3) [OF h]
  show "speed_max (fst (snd (QueryWayWithWayId wid out s))) = 0" .
next
  assume a: "\<not> refused s \<and> tables s ''way'' = Some t \<and> rows t = rs @ r # rs' \<and>
    sql_eq (column r 0) (SqlInt wid) \<and>
    (\<forall>r'\<in>set rs'. \<not> sql_eq (column r' 0) (SqlInt wid)) \<and>
    column r 3 = SqlNull \<and> column r 4 = SqlNull"
  then have h: "\<not> refused s" "tables s ''way'' = Some t" "rows t = rs @ r # rs'"
    "sql_eq (column r 0) (SqlInt wid)" "\<forall>r'\<in>set rs'. \<not> sql_eq (column r' 0) (SqlInt wid)"
    "column r 3 = SqlNull" "column r 4 = SqlNull"
    by simp_all
  from QueryWay_null_speed_last(1) [OF h] show "fst (QueryWayWithWayId wid out s)" .
  from QueryWay_null_speed_last(2) [OF h]
  show "speed_min (fst (snd (QueryWayWithWayId wid out s))) = 0" .
  from QueryWay_null_speed_last(3) [OF h]
  show "speed_max (fst (snd (QueryWayWithWayId wid out s))) = 0" .
qed

theorem speed_fields_asymmetric_witness:
  "\<not> refused (ways_db [way_7, null_way]) \<and>
   tables (ways_db [way_7, null_way]) ''way'' = Some (way_table [way_7, null_way]) \<and>
   rows (way_table [way_7, null_way]) = [way_7] @ [null_way] \<and>
   sql_eq (column null_way 0) (SqlInt 7) \<and>
   column null_way 3 = SqlNull \<and> column null_way 4 = SqlNull \<and>
   fst (QueryWayWithWayId 7 blank_Way (ways_db [way_7, null_way])) \<and>
   speed_min (fst (snd (QueryWayWithWayId 7 blank_Way (ways_db [way_7, null_way])))) = 0 \<and>
   speed_max (fst (snd (QueryWayWithWayId 7 blank_Way (ways_db [way_7, null_way])))) = 0 \<and>
   \<not> refused (ways_db [null_way, Way_row new_Way]) \<and>
   tables (ways_db [null_way, Way_row new_Way]) ''way'' =
     Some (way_table [null_way, Way_row new_Way]) \<and>
   rows (way_table [null_way, Way_row new_Way]) = [] @ null_way # [Way_row new_Way] \<and>
   \<not> sql_eq (column (Way_row new_Way) 0) (SqlInt 7) \<and>
   fst (QueryWayWithWayId 7 blank_Way (ways_db [null_way, Way_row new_Way])) \<and>
   speed_min (fst (snd (QueryWayWithWayId 7 blank_Way (ways_db [null_way, Way_row new_Way])))) = 0 \<and>
   speed_max (fst (snd (QueryWayWithWayId 7 blank_Way (ways_db [null_way, Way_row new_Way])))) = 0"
proof -
  have a: "\<not> refused (ways_db [way_7, null_way])"
    by (simp add: ways_db_def refused_def)
  have b: "tables (ways_db [way_7, null_way]) ''way'' = Some (way_table [way_7, null_way])"
    by (simp add: ways_db_def)
  have c: "rows (way_table [way_7, null_way]) = [way_7] @ [null_way]"
    by (simp add: way_table_def)
  have d: "sql_eq (column null_way 0) (SqlInt 7)" "column null_way 3 = SqlNull"
    "column null_way 4 = SqlNull"
    by (simp_all add: null_way_def column_def sql_eq_def)
  have a': "\<not> refused (ways_db [null_way, Way_row new_Way])"
    by (simp add: ways_db_def refused_def)
  have b': "tables (ways_db [null_way, Way_row new_Way]) ''way'' =
      Some (way_table [null_way, Way_row new_Way])"
    by (simp add: ways_db_def)
  have c': "rows (way_table [null_way, Way_row new_Way]) = [] @ null_way # [Way_row new_Way]"
    by (simp add: way_table_def)
  have e: "\<not> sql_eq (column (Way_row new_Way) 0) (SqlInt 7)"
    by (simp add: Way_row_def new_Way_def column_def sql_eq_def)
  then have e': "\<forall>r'\<in>set [Way_row new_Way]. \<not> sql_eq (column r' 0) (SqlInt 7)"
    by simp
  note x = speed_fields_asymmetric [THEN conjunct2, THEN conjunct2, THEN conjunct1, rule_format,
      of "ways_db [way_7, null_way]" "way_table [way_7, null_way]" "[way_7]" null_way 7 blank_Way,
      OF conjI [OF a conjI [OF b conjI [OF c conjI [OF d(1) conjI [OF d(2) d(3)]]]]]]
  note y = speed_fields_asymmetric [THEN conjunct2, THEN conjunct2, THEN conjunct2, rule_format,
      of "ways_db [null_way, Way_row new_Way]" "way_table [null_way, Way_row new_Way]" "[]"
        null_way "[Way_row new_Way]" 7 blank_Way,
      OF conjI [OF a' conjI [OF b' conjI [OF c' conjI [OF d(1) conjI [OF e' conjI [OF d(2) d(3)]]]]]]]
  from a b c d x a' b' c' e y show ?thesis
    by simp
qed

text \<open>
  C10. The overload of \<^verbatim>\<open>QueryNaviDataWithWayId\<close> that fills a vector does not clear
  it: after the call the vector holds what it held before, in place, followed by one
  entry for each row the query read, in order (nothing is added when the query fails);
  on a storage that executes the query these are the rows of the table
  \<^verbatim>\<open>navi_data\<close> with that way identifier.
\<close>

theorem QueryNaviData_appends_to_output:
  "fst (snd (QueryNaviDataWithWayId wid out s)) =
     out @
       (case fst (ExcuteQuery (SELECT_WHERE ''navi_data'' (Some [1, 2]) [(0, SqlInt wid)]) s) of
          None \<Rightarrow> []
        | Some rs \<Rightarrow> map read_NaviData rs) \<and>
   (\<not> refused s \<and> tables s ''navi_data'' = Some t \<longrightarrow>
      fst (snd (QueryNaviDataWithWayId wid out s)) =
        out @
          map (\<lambda>r. read_NaviData [column r 1, column r 2])
            (filter (\<lambda>r. sql_eq (column r 0) (SqlInt wid)) (rows t)))"
proof (intro conjI impI)
  show "fst (snd (QueryNaviDataWithWayId wid out s)) =
     out @
       (case fst (ExcuteQuery (SELECT_WHERE ''navi_data'' (Some [1, 2]) [(0, SqlInt wid)]) s) of
          None \<Rightarrow> []
        | Some rs \<Rightarrow> map read_NaviData rs)"
    by (rule QueryNaviData_appends)
next
  assume a: "\<not> refused s \<and> tables s ''navi_data'' = Some t"
  let ?q = "SELECT_WHERE ''navi_data'' (Some [1, 2]) [(0, SqlInt wid)]"
  from a ExcuteQuery_result [of s ?q]
  have "fst (ExcuteQuery ?q s) =
      Some (map (\<lambda>r. [column r 1, column r 2])
        (filter (\<lambda>r. sql_eq (column r 0) (SqlInt wid)) (rows t)))"
    by (simp add: satisfies_one project_def)
  then show "fst (snd (QueryNaviDataWithWayId wid out s)) =
        out @
          map (\<lambda>r. read_NaviData [column r 1, column r 2])
            (filter (\<lambda>r. sql_eq (column r 0) (SqlInt wid)) (rows t))"
    by (simp add: QueryNaviData_appends comp_def)
qed

theorem QueryNaviData_appends_to_output_witness:
  "\<not> refused navi_db \<and> tables navi_db ''navi_data'' = Some navi_table \<and>
   fst (snd (QueryNaviDataWithWayId 1 [blank_NaviData] navi_db)) =
     [blank_NaviData, \<lparr>navi_index = 0, data = [1]\<rparr>, \<lparr>navi_index = 1, data = [3]\<rparr>]"
proof -
  have a: "\<not> refused navi_db"
    by (simp add: navi_db_def refused_def)
  have b: "tables navi_db ''navi_data'' = Some navi_table"
    by (simp add: navi_db_def)
  have c: "map (\<lambda>r. read_NaviData [column r 1, column r 2])
      (filter (\<lambda>r. sql_eq (column r 0) (SqlInt 1)) (rows navi_table)) =
      [\<lparr>navi_index = 0, data = [1]\<rparr>, \<lparr>navi_index = 1, data = [3]\<rparr>]"
    by (simp add: navi_table_def navi_data_table_def read_NaviData_def column_def sql_eq_def)
  from QueryNaviData_appends_to_output [THEN conjunct2, rule_format,
      of navi_db navi_table 1 "[blank_NaviData]"] a b c
  show ?thesis by simp
qed

end
